theory Spec2Isabelle
  imports Main "HOL-Library.Sublist"
begin

section \<open>The Unified GitHub Manager (menu-designe.py): workspace reconciliation\<close>

text \<open>
  The script drives an external \<open>git\<close> executable and the hosting API. Neither is part
  of the program, so both are parameters of the model: an environment \<open>env\<close> answers
  every subprocess invocation and every file-system query, on a world of an arbitrary
  type \<open>'w\<close>. What the script itself does is recorded, in order, as a list of events:
  each subprocess it starts, each line it prints on the console, each entry it appends
  to the action log, each directory tree it removes.
\<close>

subsection \<open>Python strings and paths\<close>

text \<open>\<open>str.replace(old, new)\<close>: leftmost, non-overlapping occurrences. For an empty
  \<open>old\<close> Python puts \<open>new\<close> before every character and at the end.\<close>

function py_replace_ne :: "string \<Rightarrow> string \<Rightarrow> string \<Rightarrow> string" where
  "py_replace_ne old new [] = []"
| "py_replace_ne old new (c # cs) =
     (if prefix old (c # cs) then new @ py_replace_ne old new (drop (length old - 1) cs)
      else c # py_replace_ne old new cs)"
  by pat_completeness auto
termination
  by (relation "measure (\<lambda>(old, new, s). length s)") auto

definition py_replace :: "string \<Rightarrow> string \<Rightarrow> string \<Rightarrow> string" where
  "py_replace old new s =
     (if old = [] then new @ concat (map (\<lambda>c. c # new) s) else py_replace_ne old new s)"

text \<open>\<open>str.isspace()\<close>, one character at a time: a \<open>char\<close> of the model is a code point
  below 256, and among these Python counts as white space \<open>\t \n \v \f \r\<close>, the
  separators \<open>0x1c..0x1f\<close>, the blank, \<open>U+0085\<close> and \<open>U+00A0\<close>.\<close>

definition py_isspace :: "char \<Rightarrow> bool" where
  "py_isspace c = (of_char c \<in> {9, 10, 11, 12, 13, 28, 29, 30, 31, 32, 133, 160 :: nat})"

text \<open>\<open>str.strip()\<close>: white space is removed at both ends.\<close>

definition strip :: "string \<Rightarrow> string" where
  "strip s = rev (dropWhile py_isspace (rev (dropWhile py_isspace s)))"

text \<open>\<open>os.path.join(a, b)\<close> of posixpath.\<close>

definition path_join :: "string \<Rightarrow> string \<Rightarrow> string" where
  "path_join a b =
     (if prefix ''/'' b then b
      else if a = [] \<or> suffix ''/'' a then a @ b
      else a @ ''/'' @ b)"

text \<open>\<open>os.path.dirname(p)\<close> of posixpath: the head up to the last slash, without its
  trailing slashes unless it consists of slashes only.\<close>

definition dirname :: "string \<Rightarrow> string" where
  "dirname p =
     (let head = rev (dropWhile (\<lambda>c. c \<noteq> CHR ''/'') (rev p))
      in if head \<noteq> [] \<and> head \<noteq> replicate (length head) CHR ''/''
         then rev (dropWhile (\<lambda>c. c = CHR ''/'') (rev head)) else head)"

subsection \<open>Configuration\<close>

definition WORKSPACE :: string where
  "WORKSPACE = ''/home/gost/7heBlackLand''"

definition DEFAULT_GIT_NAME :: string where
  "DEFAULT_GIT_NAME = ''7heBlackLand Bot''"

definition DEFAULT_GIT_EMAIL :: string where
  "DEFAULT_GIT_EMAIL = ''bot@7heblackland.dev''"

subsection \<open>Exceptions, subprocesses, events\<close>

type_synonym cmd = "string list"

text \<open>The exceptions the modelled code can meet. All of them are instances of Python's
  \<open>Exception\<close>; only \<open>CalledProcessError\<close> is caught by \<open>safe_run\<close>.\<close>

datatype exc = CalledProcessError int | OSError | ValueError | IndexError

datatype 'a res = Ok 'a | Raise exc

text \<open>What starting a subprocess gives: it exits with a return code and its standard
  output, or it cannot be started at all (missing executable or working directory).\<close>

datatype proc_result = Exited int string | LaunchFailed

text \<open>A repository as the hosting API returns it (the attributes the script reads).\<close>

record repository =
  name :: string
  full_name :: string
  clone_url :: string
  is_private :: bool

text \<open>Console lines and log entries, one constructor per message of the source.\<close>

datatype msg =
    MsgRun cmd "string option"
  | MsgFetchFailed exc
  | MsgAlreadyExists string
  | MsgCloning string
  | MsgCloned string
  | MsgFailedClone string exc
  | MsgRepo string
  | MsgPushed
  | MsgNothingToCommit
  | MsgFailedFor string exc
  | MsgBatchDone
  | MsgInitFailed exc
  | MsgClonedTo string string
  | MsgCloneFailed exc
  | MsgPulled
  | MsgPullFailed exc
  | MsgPushFailed exc
  | MsgSynced
  | MsgNothingToSync
  | MsgSyncFailed exc

datatype logmsg =
    LogUpdatedRemote string
  | LogCloned string string
  | LogPulled string
  | LogPushed string
  | LogError string exc
  | LogPushedLocal string
  | LogSyncedLocal string

datatype event =
    Call cmd "string option"
  | Print msg
  | Log logmsg
  | Makedirs string
  | Rmtree string

record 'w env =
  proc :: "cmd \<Rightarrow> string option \<Rightarrow> 'w \<Rightarrow> proc_result \<times> 'w"
  path_exists :: "'w \<Rightarrow> string \<Rightarrow> bool"
  isdir :: "'w \<Rightarrow> string \<Rightarrow> bool"
  makedirs :: "string \<Rightarrow> 'w \<Rightarrow> bool \<times> 'w"
  rmtree :: "string \<Rightarrow> 'w \<Rightarrow> 'w"
  get_repos :: "'w \<Rightarrow> repository list res"

record 'w state =
  world :: 'w
  events :: "event list"

definition emit :: "event \<Rightarrow> 'w state \<Rightarrow> 'w state" where
  "emit e s = s\<lparr>events := events s @ [e]\<rparr>"

text \<open>The events an operation added: those of the state after it, past those before.\<close>

definition new_events :: "'w state \<Rightarrow> 'w state \<Rightarrow> event list" where
  "new_events s s' = drop (length (events s)) (events s')"

text \<open>Starting a subprocess: the environment answers and moves the world on.\<close>

definition subprocess :: "'w env \<Rightarrow> cmd \<Rightarrow> string option \<Rightarrow> 'w state \<Rightarrow> proc_result \<times> 'w state" where
  "subprocess env c cwd s =
     (case proc env c cwd (world s) of
        (r, w') \<Rightarrow> (r, \<lparr>world = w', events = events s @ [Call c cwd]\<rparr>))"

text \<open>\<open>subprocess.run(cmd)\<close> without \<open>check\<close>: the return code, whatever it is.\<close>

definition subprocess_run :: "'w env \<Rightarrow> cmd \<Rightarrow> 'w state \<Rightarrow> int res \<times> 'w state" where
  "subprocess_run env c s =
     (case subprocess env c None s of
        (Exited rc out, s') \<Rightarrow> (Ok rc, s')
      | (LaunchFailed, s') \<Rightarrow> (Raise OSError, s'))"

text \<open>\<open>subprocess.check_output(cmd, text=True)\<close>.\<close>

definition check_output :: "'w env \<Rightarrow> cmd \<Rightarrow> 'w state \<Rightarrow> string res \<times> 'w state" where
  "check_output env c s =
     (case subprocess env c None s of
        (Exited rc out, s') \<Rightarrow> (if rc = 0 then Ok out else Raise (CalledProcessError rc), s')
      | (LaunchFailed, s') \<Rightarrow> (Raise OSError, s'))"

text \<open>\<open>log_action\<close>: the entry is appended to the log; its own failures are dropped.\<close>

definition log_action :: "logmsg \<Rightarrow> 'w state \<Rightarrow> 'w state" where
  "log_action m s = emit (Log m) s"

definition console_print :: "msg \<Rightarrow> 'w state \<Rightarrow> 'w state" where
  "console_print m s = emit (Print m) s"

text \<open>\<open>run(cmd, cwd, silent)\<close>: \<open>subprocess.run(cmd, cwd=cwd, check=True)\<close>.\<close>

definition run :: "'w env \<Rightarrow> cmd \<Rightarrow> string option \<Rightarrow> bool \<Rightarrow> 'w state \<Rightarrow> unit res \<times> 'w state" where
  "run env c cwd silent s =
     (let s0 = (if \<not> silent then console_print (MsgRun c cwd) s else s)
      in case subprocess env c cwd s0 of
           (Exited rc out, s') \<Rightarrow> (if rc = 0 then Ok () else Raise (CalledProcessError rc), s')
         | (LaunchFailed, s') \<Rightarrow> (Raise OSError, s'))"

definition safe_run :: "'w env \<Rightarrow> cmd \<Rightarrow> string option \<Rightarrow> bool \<Rightarrow> 'w state \<Rightarrow> bool res \<times> 'w state" where
  "safe_run env c cwd silent s =
     (case run env c cwd silent s of
        (Ok u, s') \<Rightarrow> (Ok True, s')
      | (Raise (CalledProcessError rc), s') \<Rightarrow> (Ok False, s')
      | (Raise e, s') \<Rightarrow> (Raise e, s'))"

subsection \<open>GitHub helpers\<close>

text \<open>Python's \<open>xs[:limit]\<close>: a negative limit counts from the end.\<close>

definition slice_to :: "int \<Rightarrow> 'a list \<Rightarrow> 'a list" where
  "slice_to limit xs =
     (if limit < 0 then take (nat (int (length xs) + limit)) xs else take (nat limit) xs)"

definition list_repos_limit :: "'w env \<Rightarrow> int \<Rightarrow> 'w state \<Rightarrow> repository list \<times> 'w state" where
  "list_repos_limit env limit s =
     (case get_repos env (world s) of
        Ok rs \<Rightarrow> (slice_to limit rs, s)
      | Raise e \<Rightarrow> ([], console_print (MsgFetchFailed e) s))"

text \<open>Every call of the source is \<open>list_repos()\<close>, with the default \<open>limit = 1000\<close>.\<close>

definition list_repos :: "'w env \<Rightarrow> 'w state \<Rightarrow> repository list \<times> 'w state" where
  "list_repos env s = list_repos_limit env 1000 s"

text \<open>The credential rewrite, as it is written four times in the source
  (\<open>fix_remote_with_token\<close>, \<open>upload_local_folder\<close>, \<open>clone_to_workspace\<close>,
  \<open>per_repo_manager\<close>): the test \<open>u.startswith("https://") and "@" not in u\<close> and
  the replacement \<open>u.replace("https://", f"https://{TOKEN}@")\<close>.\<close>

definition plain_https :: "string \<Rightarrow> bool" where
  "plain_https u = (prefix ''https://'' u \<and> CHR ''@'' \<notin> set u)"

definition with_token :: "string \<Rightarrow> string \<Rightarrow> string" where
  "with_token tok u = py_replace ''https://'' (''https://'' @ tok @ ''@'') u"

definition token_url :: "string \<Rightarrow> string \<Rightarrow> string" where
  "token_url tok u = (if plain_https u then with_token tok u else u)"

definition get_url_cmd :: "string \<Rightarrow> cmd" where
  "get_url_cmd repo_path = [''git'', ''-C'', repo_path, ''remote'', ''get-url'', ''origin'']"

definition set_url_cmd :: "string \<Rightarrow> string \<Rightarrow> cmd" where
  "set_url_cmd repo_path new = [''git'', ''-C'', repo_path, ''remote'', ''set-url'', ''origin'', new]"

text \<open>\<open>fix_remote_with_token\<close>: the whole body is inside \<open>try ... except Exception: pass\<close>,
  and the result of \<open>safe_run\<close> is not looked at.\<close>

definition fix_remote_with_token :: "'w env \<Rightarrow> string \<Rightarrow> string \<Rightarrow> 'w state \<Rightarrow> 'w state" where
  "fix_remote_with_token env tok repo_path s =
     (case check_output env (get_url_cmd repo_path) s of
        (Raise e, s1) \<Rightarrow> s1
      | (Ok out, s1) \<Rightarrow>
          (let origin = strip out
           in if plain_https origin then
                (case safe_run env (set_url_cmd repo_path (with_token tok origin)) None True s1 of
                   (Raise e, s2) \<Rightarrow> s2
                 | (Ok b, s2) \<Rightarrow> log_action (LogUpdatedRemote repo_path) s2)
              else s1))"

text \<open>The spec's words for the same test, to compare with the code's: "the plain
  unauthenticated HTTPS form (no \<open>user@\<close> segment)". The user segment of a URL sits in
  its authority, between the scheme and the first \<open>/\<close>, \<open>?\<close> or \<open>#\<close>.\<close>

definition spec_unauthenticated_https :: "string \<Rightarrow> bool" where
  "spec_unauthenticated_https u =
     (prefix ''https://'' u \<and>
      CHR ''@'' \<notin> set (takeWhile (\<lambda>c. c \<noteq> CHR ''/'' \<and> c \<noteq> CHR ''?'' \<and> c \<noteq> CHR ''#'') (drop 8 u)))"

subsection \<open>Clone to workspace\<close>

definition clone_cmd :: "string \<Rightarrow> string \<Rightarrow> cmd" where
  "clone_cmd url dst = [''git'', ''clone'', url, dst]"

text \<open>The body of the loop \<open>for r in to_clone\<close> of \<open>clone_to_workspace\<close>.\<close>

definition clone_one :: "'w env \<Rightarrow> string \<Rightarrow> repository \<Rightarrow> 'w state \<Rightarrow> 'w state" where
  "clone_one env tok r s =
     (let dst = path_join WORKSPACE (name r)
      in if path_exists env (world s) dst then
           fix_remote_with_token env tok dst (console_print (MsgAlreadyExists (name r)) s)
         else
           (let url = token_url tok (clone_url r);
                s1 = console_print (MsgCloning (full_name r)) s
            in case run env (clone_cmd url dst) None True s1 of
                 (Ok u, s2) \<Rightarrow>
                   log_action (LogCloned (full_name r) dst)
                     (console_print (MsgCloned (name r)) (fix_remote_with_token env tok dst s2))
               | (Raise e, s2) \<Rightarrow> console_print (MsgFailedClone (name r) e) s2))"


subsection \<open>Batch workspace manager\<close>

definition pull_cmd :: "string \<Rightarrow> cmd" where
  "pull_cmd path = [''git'', ''-C'', path, ''pull'']"

definition add_cmd :: "string \<Rightarrow> cmd" where
  "add_cmd path = [''git'', ''-C'', path, ''add'', ''.'']"

definition commit_cmd :: "string \<Rightarrow> string \<Rightarrow> cmd" where
  "commit_cmd path message = [''git'', ''-C'', path, ''commit'', ''-m'', message]"

definition push_cmd :: "string \<Rightarrow> cmd" where
  "push_cmd path = [''git'', ''-C'', path, ''push'']"

text \<open>The commit step, written the same way at each of its three places in the source:
  \<open>run(["git", "-C", path, "add", "."], silent=True)\<close>, then
  \<open>c = subprocess.run(["git", "-C", path, "commit", "-m", msg])\<close>, then the test
  \<open>c.returncode == 0\<close>, which is the value returned here.\<close>

definition commit_if_dirty :: "'w env \<Rightarrow> string \<Rightarrow> string \<Rightarrow> 'w state \<Rightarrow> bool res \<times> 'w state" where
  "commit_if_dirty env path message s =
     (case run env (add_cmd path) None True s of
        (Raise e, s1) \<Rightarrow> (Raise e, s1)
      | (Ok u, s1) \<Rightarrow>
          (case subprocess_run env (commit_cmd path message) s1 of
             (Raise e, s2) \<Rightarrow> (Raise e, s2)
           | (Ok rc, s2) \<Rightarrow> (Ok (rc = 0), s2)))"

text \<open>\<open>if choice in ("1", "3")\<close>: pull and log.\<close>

definition batch_pull :: "'w env \<Rightarrow> string \<Rightarrow> string \<Rightarrow> 'w state \<Rightarrow> unit res \<times> 'w state" where
  "batch_pull env repo_name path s =
     (case run env (pull_cmd path) None True s of
        (Raise e, s1) \<Rightarrow> (Raise e, s1)
      | (Ok u, s1) \<Rightarrow> (Ok (), log_action (LogPulled repo_name) s1))"

text \<open>\<open>if choice in ("2", "3")\<close>: commit, then push or "Nothing to commit".\<close>

definition batch_push :: "'w env \<Rightarrow> string \<Rightarrow> string \<Rightarrow> string \<Rightarrow> 'w state \<Rightarrow> unit res \<times> 'w state" where
  "batch_push env repo_name path commit_msg s =
     (case commit_if_dirty env path commit_msg s of
        (Raise e, s1) \<Rightarrow> (Raise e, s1)
      | (Ok committed, s1) \<Rightarrow>
          (if committed then
             (case run env (push_cmd path) None True s1 of
                (Raise e, s2) \<Rightarrow> (Raise e, s2)
              | (Ok u, s2) \<Rightarrow> (Ok (), log_action (LogPushed repo_name) (console_print MsgPushed s2)))
           else (Ok (), console_print MsgNothingToCommit s1)))"

text \<open>The body of the \<open>try\<close> of the loop: both steps, in one block.\<close>

definition batch_try :: "'w env \<Rightarrow> string \<Rightarrow> string \<Rightarrow> string \<Rightarrow> string \<Rightarrow> 'w state \<Rightarrow> unit res \<times> 'w state" where
  "batch_try env choice commit_msg repo_name path s =
     (case (if choice = ''1'' \<or> choice = ''3'' then batch_pull env repo_name path s else (Ok (), s)) of
        (Raise e, s1) \<Rightarrow> (Raise e, s1)
      | (Ok u, s1) \<Rightarrow>
          (if choice = ''2'' \<or> choice = ''3'' then batch_push env repo_name path commit_msg s1
           else (Ok (), s1)))"

text \<open>The body of the loop \<open>for repo_name in dirs\<close> of \<open>batch_workspace_manager\<close>.\<close>

definition batch_repo :: "'w env \<Rightarrow> string \<Rightarrow> string \<Rightarrow> string \<Rightarrow> string \<Rightarrow> 'w state \<Rightarrow> 'w state" where
  "batch_repo env tok choice commit_msg repo_name s =
     (let path = path_join WORKSPACE repo_name;
          s0 = fix_remote_with_token env tok path (console_print (MsgRepo repo_name) s)
      in case batch_try env choice commit_msg repo_name path s0 of
           (Ok u, s1) \<Rightarrow> s1
         | (Raise e, s1) \<Rightarrow>
             log_action (LogError repo_name e) (console_print (MsgFailedFor repo_name e) s1))"

fun batch_loop :: "'w env \<Rightarrow> string \<Rightarrow> string \<Rightarrow> string \<Rightarrow> string list \<Rightarrow> 'w state \<Rightarrow> 'w state" where
  "batch_loop env tok choice commit_msg [] s = s"
| "batch_loop env tok choice commit_msg (d # ds) s =
     batch_loop env tok choice commit_msg ds (batch_repo env tok choice commit_msg d s)"

text \<open>The loop and the closing line "Batch operations completed."; \<open>dirs\<close> is the
  sorted list of the workspace's git directories.\<close>

definition batch_all :: "'w env \<Rightarrow> string \<Rightarrow> string \<Rightarrow> string \<Rightarrow> string list \<Rightarrow> 'w state \<Rightarrow> 'w state" where
  "batch_all env tok choice commit_msg dirs s =
     console_print MsgBatchDone (batch_loop env tok choice commit_msg dirs s)"

subsection \<open>Per-repo local manager\<close>

text \<open>\<open>xs[i]\<close> of a Python list.\<close>

definition py_index :: "'a list \<Rightarrow> int \<Rightarrow> 'a res" where
  "py_index xs i =
     (if 0 \<le> i \<and> i < int (length xs) then Ok (xs ! nat i)
      else if i < 0 \<and> - int (length xs) \<le> i then Ok (xs ! nat (int (length xs) + i))
      else Raise IndexError)"

text \<open>\<open>os.makedirs(p, exist_ok=True)\<close>.\<close>

definition os_makedirs :: "'w env \<Rightarrow> string \<Rightarrow> 'w state \<Rightarrow> unit res \<times> 'w state" where
  "os_makedirs env p s =
     (case makedirs env p (world s) of
        (ok, w') \<Rightarrow> (if ok then Ok () else Raise OSError,
                     \<lparr>world = w', events = events s @ [Makedirs p]\<rparr>))"

text \<open>\<open>shutil.rmtree(p, ignore_errors=True)\<close>.\<close>

definition shutil_rmtree :: "'w env \<Rightarrow> string \<Rightarrow> 'w state \<Rightarrow> 'w state" where
  "shutil_rmtree env p s = \<lparr>world = rmtree env p (world s), events = events s @ [Rmtree p]\<rparr>"

text \<open>The \<open>try\<close> block of \<open>per_repo_manager\<close> that clones a repository of the account
  to \<open>path\<close>. \<open>sel\<close> is the value of \<open>int(sel)\<close>, \<open>None\<close> when that raises.\<close>

definition per_repo_clone_try ::
  "'w env \<Rightarrow> string \<Rightarrow> repository list \<Rightarrow> int option \<Rightarrow> string \<Rightarrow> 'w state \<Rightarrow> unit res \<times> 'w state" where
  "per_repo_clone_try env tok repos sel path s =
     (case sel of
        None \<Rightarrow> (Raise ValueError, s)
      | Some n \<Rightarrow>
          (case py_index repos (n - 1) of
             Raise e \<Rightarrow> (Raise e, s)
           | Ok repo \<Rightarrow>
               (let url = token_url tok (clone_url repo)
                in case os_makedirs env (dirname path) s of
                     (Raise e, s1) \<Rightarrow> (Raise e, s1)
                   | (Ok u, s1) \<Rightarrow>
                       (case run env (clone_cmd url path) None False s1 of
                          (Raise e, s2) \<Rightarrow> (Raise e, s2)
                        | (Ok u, s2) \<Rightarrow>
                            (Ok (), log_action (LogCloned (full_name repo) path)
                                      (console_print (MsgClonedTo (name repo) path)
                                         (fix_remote_with_token env tok path s2)))))))"

text \<open>The block with its handler: \<open>False\<close> is the \<open>return\<close> after "Clone failed".\<close>

definition per_repo_clone ::
  "'w env \<Rightarrow> string \<Rightarrow> repository list \<Rightarrow> int option \<Rightarrow> string \<Rightarrow> 'w state \<Rightarrow> bool \<times> 'w state" where
  "per_repo_clone env tok repos sel path s =
     (case per_repo_clone_try env tok repos sel path s of
        (Ok u, s1) \<Rightarrow> (True, s1)
      | (Raise e, s1) \<Rightarrow> (False, console_print (MsgCloneFailed e) s1))"

text \<open>One turn of the menu loop of \<open>per_repo_manager\<close>: \<open>ch\<close> is the choice, \<open>message\<close>
  the commit message asked for under choices 2 and 3. Any other choice leaves the loop.\<close>

definition per_repo_choice :: "'w env \<Rightarrow> string \<Rightarrow> string \<Rightarrow> string \<Rightarrow> 'w state \<Rightarrow> 'w state" where
  "per_repo_choice env path ch message s =
     (if ch = ''1'' then
        (case run env (pull_cmd path) None False s of
           (Ok u, s1) \<Rightarrow> console_print MsgPulled s1
         | (Raise e, s1) \<Rightarrow> console_print (MsgPullFailed e) s1)
      else if ch = ''2'' then
        (case commit_if_dirty env path message s of
           (Raise e, s1) \<Rightarrow> console_print (MsgPushFailed e) s1
         | (Ok committed, s1) \<Rightarrow>
             (if committed then
                (case run env (push_cmd path) None False s1 of
                   (Raise e, s2) \<Rightarrow> console_print (MsgPushFailed e) s2
                 | (Ok u, s2) \<Rightarrow> log_action (LogPushedLocal path) (console_print MsgPushed s2))
              else console_print MsgNothingToCommit s1))
      else if ch = ''3'' then
        (case run env (pull_cmd path) None True s of
           (Raise e, s1) \<Rightarrow> console_print (MsgSyncFailed e) s1
         | (Ok u, s1) \<Rightarrow>
             (case commit_if_dirty env path message s1 of
                (Raise e, s2) \<Rightarrow> console_print (MsgSyncFailed e) s2
              | (Ok committed, s2) \<Rightarrow>
                  (if committed then
                     (case run env (push_cmd path) None True s2 of
                        (Raise e, s3) \<Rightarrow> console_print (MsgSyncFailed e) s3
                      | (Ok u, s3) \<Rightarrow> log_action (LogSyncedLocal path) (console_print MsgSynced s3))
                   else console_print MsgNothingToSync s2)))
      else s)"

subsection \<open>Upload: initialising the local folder\<close>

text \<open>The block "Initialize git repo if not present" of \<open>upload_local_folder\<close>.
  \<open>cleanup_tmp\<close> says that \<open>repo_path\<close> is the temporary directory the function made
  for a single file. \<open>False\<close> is the \<open>return\<close> of the handler.\<close>

definition upload_init :: "'w env \<Rightarrow> string \<Rightarrow> bool \<Rightarrow> 'w state \<Rightarrow> bool \<times> 'w state" where
  "upload_init env repo_path cleanup_tmp s =
     (if \<not> isdir env (world s) (path_join repo_path ''.git'') then
        (case
           (case run env [''git'', ''init''] (Some repo_path) False s of
              (Raise e, s1) \<Rightarrow> (Raise e, s1)
            | (Ok u, s1) \<Rightarrow>
                (case run env [''git'', ''config'', ''user.name'', DEFAULT_GIT_NAME]
                        (Some repo_path) False s1 of
                   (Raise e, s2) \<Rightarrow> (Raise e, s2)
                 | (Ok u, s2) \<Rightarrow>
                     run env [''git'', ''config'', ''user.email'', DEFAULT_GIT_EMAIL]
                       (Some repo_path) False s2))
         of
           (Ok u, s3) \<Rightarrow> (True, s3)
         | (Raise e, s3) \<Rightarrow>
             (let s4 = console_print (MsgInitFailed e) s3
              in (False, if cleanup_tmp then shutil_rmtree env repo_path s4 else s4)))
      else (True, s))"

subsection \<open>A stub environment\<close>

text \<open>For running the model on concrete inputs: the world is the list of the directories
  that exist; a table keyed by a word of the command line gives the answer of each
  subprocess (exit status 0 and no output when no key occurs in it); \<open>effect\<close> is what a
  subprocess does to the directories.\<close>

fun answer_of :: "(string \<times> proc_result) list \<Rightarrow> cmd \<Rightarrow> proc_result" where
  "answer_of [] c = Exited 0 []"
| "answer_of ((k, r) # kvs) c = (if k \<in> set c then r else answer_of kvs c)"

definition stub_env ::
  "(string \<times> proc_result) list \<Rightarrow> (cmd \<Rightarrow> string list \<Rightarrow> string list) \<Rightarrow> repository list res
     \<Rightarrow> (string list) env" where
  "stub_env table effect api =
     \<lparr>proc = (\<lambda>c cwd w. (answer_of table c, effect c w)),
      path_exists = (\<lambda>w p. p \<in> set w),
      isdir = (\<lambda>w p. p \<in> set w),
      makedirs = (\<lambda>p w. (True, if p \<in> set w then w else w @ [p])),
      rmtree = (\<lambda>p w. removeAll p w),
      get_repos = (\<lambda>w. api)\<rparr>"

definition no_effect :: "cmd \<Rightarrow> string list \<Rightarrow> string list" where
  "no_effect c w = w"

text \<open>A \<open>git clone url dst\<close> that creates \<open>dst\<close>, whatever its exit status.\<close>

definition clone_creates :: "cmd \<Rightarrow> string list \<Rightarrow> string list" where
  "clone_creates c w =
     (case c of
        [g, sub, url, dst] \<Rightarrow> (if sub = ''clone'' \<and> dst \<notin> set w then w @ [dst] else w)
      | _ \<Rightarrow> w)"

definition start :: "string list \<Rightarrow> (string list) state" where
  "start w = \<lparr>world = w, events = []\<rparr>"

definition demo_repo :: "string \<Rightarrow> repository" where
  "demo_repo n =
     \<lparr>name = n, full_name = ''gost/'' @ n,
      clone_url = ''https://github.com/gost/'' @ n @ ''.git'', is_private = False\<rparr>"

subsection \<open>The origin URL of a repository\<close>

text \<open>The origin URL of the repository at \<open>p\<close> in a world, read the way
  \<open>fix_remote_with_token\<close> reads it: the stripped output of \<open>git remote get-url origin\<close>,
  when that command exits with status 0.\<close>

definition origin_of :: "'w env \<Rightarrow> string \<Rightarrow> 'w \<Rightarrow> string option" where
  "origin_of env p w =
     (case fst (proc env (get_url_cmd p) None w) of
        Exited rc out \<Rightarrow> (if rc = 0 then Some (strip out) else None)
      | LaunchFailed \<Rightarrow> None)"

text \<open>What a statement about the origin URL after a run has to ask of git: reading the
  origin does not change it; a \<open>set-url\<close> or a \<open>clone\<close> that exits with status 0 leaves
  the URL it was given as the origin; \<open>pull\<close>, \<open>add\<close>, \<open>commit\<close> and \<open>push\<close> leave the
  origin alone.\<close>

definition git_keeps_origin :: "'w env \<Rightarrow> string \<Rightarrow> bool" where
  "git_keeps_origin env p =
     ((\<forall>w. origin_of env p (snd (proc env (get_url_cmd p) None w)) = origin_of env p w)
      \<and> (\<forall>w new out. fst (proc env (set_url_cmd p new) None w) = Exited 0 out \<longrightarrow>
            origin_of env p (snd (proc env (set_url_cmd p new) None w)) = Some (strip new))
      \<and> (\<forall>w url out. fst (proc env (clone_cmd url p) None w) = Exited 0 out \<longrightarrow>
            origin_of env p (snd (proc env (clone_cmd url p) None w)) = Some (strip url))
      \<and> (\<forall>w. origin_of env p (snd (proc env (pull_cmd p) None w)) = origin_of env p w)
      \<and> (\<forall>w. origin_of env p (snd (proc env (add_cmd p) None w)) = origin_of env p w)
      \<and> (\<forall>w m. origin_of env p (snd (proc env (commit_cmd p m) None w)) = origin_of env p w)
      \<and> (\<forall>w. origin_of env p (snd (proc env (push_cmd p) None w)) = origin_of env p w))"

text \<open>A small git of that kind, for running the model: the world is the origin URL of
  the one repository; \<open>get-url\<close> prints it, \<open>set-url\<close> and \<open>clone\<close> store their URL, every
  command exits with status 0; the directories in \<open>dirs\<close> exist.\<close>

definition git_env :: "string list \<Rightarrow> string env" where
  "git_env dirs =
     \<lparr>proc = (\<lambda>c cwd w.
         if drop 3 c = [''remote'', ''get-url'', ''origin''] then (Exited 0 w, w)
         else if length c = 7 \<and> take 3 (drop 3 c) = [''remote'', ''set-url'', ''origin'']
           then (Exited 0 [], last c)
         else if length c = 4 \<and> take 2 c = [''git'', ''clone''] then (Exited 0 [], c ! 2)
         else (Exited 0 [], w)),
      path_exists = (\<lambda>w p. p \<in> set dirs),
      isdir = (\<lambda>w p. p \<in> set dirs),
      makedirs = (\<lambda>p w. (True, w)),
      rmtree = (\<lambda>p w. w),
      get_repos = (\<lambda>w. Ok [])\<rparr>"

subsection \<open>Reading the event list\<close>

text \<open>The repositories the batch loop announced ("\<open>\<dots>\<close> repo_name"), in order.\<close>

fun repo_headers :: "event list \<Rightarrow> string list" where
  "repo_headers [] = []"
| "repo_headers (Print (MsgRepo n) # es) = n # repo_headers es"
| "repo_headers (e # es) = repo_headers es"


text \<open>The repositories the clone loop reported on ("Already exists, skipping",
  "Cloned", "Failed to clone"), in order.\<close>

fun clone_outcomes :: "event list \<Rightarrow> string list" where
  "clone_outcomes [] = []"
| "clone_outcomes (Print (MsgAlreadyExists n) # es) = n # clone_outcomes es"
| "clone_outcomes (Print (MsgCloned n) # es) = n # clone_outcomes es"
| "clone_outcomes (Print (MsgFailedClone n e) # es) = n # clone_outcomes es"
| "clone_outcomes (e # es) = clone_outcomes es"

section \<open>Properties\<close>

text \<open>The definitions to unfold when the model is run on a concrete input.\<close>

lemmas run_defs =
  batch_repo_def batch_try_def batch_pull_def batch_push_def commit_if_dirty_def
  clone_one_def fix_remote_with_token_def check_output_def safe_run_def run_def
  subprocess_run_def subprocess_def stub_env_def start_def no_effect_def clone_creates_def
  get_url_cmd_def set_url_cmd_def clone_cmd_def pull_cmd_def add_cmd_def commit_cmd_def push_cmd_def
  strip_def py_isspace_def plain_https_def with_token_def token_url_def py_replace_def
  path_join_def suffix_to_prefix WORKSPACE_def demo_repo_def new_events_def Let_def

lemma py_replace_ne_prefix:
  "old \<noteq> [] \<Longrightarrow> py_replace_ne old new (old @ rest) = new @ py_replace_ne old new rest"
  by (cases old) simp_all

lemma with_token_https:
  "with_token tok (''https://'' @ rest) =
     ''https://'' @ tok @ ''@'' @ py_replace ''https://'' (''https://'' @ tok @ ''@'') rest"
  unfolding with_token_def py_replace_def
  using py_replace_ne_prefix [of "''https://''" "''https://'' @ tok @ ''@''" rest]
  by simp

lemma with_token_has_at: "prefix ''https://'' u \<Longrightarrow> CHR ''@'' \<in> set (with_token tok u)"
  by (auto simp: prefix_def with_token_https simp del: append_Cons)

subsection \<open>Events of the primitive operations\<close>

lemma emit_sel [simp]: "events (emit e s) = events s @ [e]" "world (emit e s) = world s"
  by (simp_all add: emit_def)

lemma console_print_sel [simp]:
  "events (console_print m s) = events s @ [Print m]" "world (console_print m s) = world s"
  by (simp_all add: console_print_def)

lemma log_action_sel [simp]:
  "events (log_action m s) = events s @ [Log m]" "world (log_action m s) = world s"
  by (simp_all add: log_action_def)

lemma new_events_append [simp]: "events s' = events s @ X \<Longrightarrow> new_events s s' = X"
  by (simp add: new_events_def)

lemma subprocess_eq:
  "subprocess env c cwd s = (r, s') \<Longrightarrow>
     events s' = events s @ [Call c cwd] \<and> proc env c cwd (world s) = (r, world s')"
  by (auto simp: subprocess_def split: prod.splits)

lemma run_eq:
  "run env c cwd silent s = (r, s') \<Longrightarrow>
     events s' = events s @ (if silent then [] else [Print (MsgRun c cwd)]) @ [Call c cwd]"
  by (auto simp: run_def Let_def dest!: subprocess_eq split: prod.splits proc_result.splits if_splits)

lemma safe_run_eq:
  "safe_run env c cwd silent s = (r, s') \<Longrightarrow>
     events s' = events s @ (if silent then [] else [Print (MsgRun c cwd)]) @ [Call c cwd]"
  by (auto simp: safe_run_def dest!: run_eq split: prod.splits res.splits exc.splits)

lemma check_output_eq:
  "check_output env c s = (r, s') \<Longrightarrow> events s' = events s @ [Call c None]"
  by (auto simp: check_output_def dest!: subprocess_eq split: prod.splits proc_result.splits if_splits)

lemma subprocess_run_eq:
  "subprocess_run env c s = (r, s') \<Longrightarrow> events s' = events s @ [Call c None]"
  by (auto simp: subprocess_run_def dest!: subprocess_eq split: prod.splits proc_result.splits)

text \<open>What \<open>fix_remote_with_token\<close> leaves behind: the \<open>get-url\<close> call, then nothing, or
  the \<open>set-url\<close> call, or the \<open>set-url\<close> call and the log entry.\<close>

lemma fix_remote_events:
  "\<exists>X. events (fix_remote_with_token env tok p s) = events s @ Call (get_url_cmd p) None # X \<and>
       (X = [] \<or> (\<exists>new. X = [Call (set_url_cmd p new) None] \<or>
                         X = [Call (set_url_cmd p new) None, Log (LogUpdatedRemote p)]))"
  by (auto simp: fix_remote_with_token_def Let_def dest!: check_output_eq safe_run_eq
           split: prod.splits res.splits)

subsection \<open>The credential rewrite\<close>

lemma plain_https_with_token: "plain_https u \<Longrightarrow> \<not> plain_https (with_token tok u)"
  using with_token_has_at [of u tok] by (simp add: plain_https_def)

lemma with_token_drop:
  assumes "prefix ''https://'' u"
  shows "with_token tok u =
     ''https://'' @ tok @ ''@'' @ py_replace ''https://'' (''https://'' @ tok @ ''@'') (drop 8 u)"
proof -
  from assms obtain rest where u: "u = ''https://'' @ rest"
    by (auto simp: prefix_def)
  have "drop 8 u = rest" unfolding u by simp
  then show ?thesis using with_token_https [of tok rest] u by simp
qed

subsection \<open>Listing the repositories\<close>

lemma slice_to_1000: "slice_to 1000 rs = take 1000 rs"
  by (simp add: slice_to_def)

text \<open>
  Claim C10. \<open>list_repos()\<close> returns at most 1000 repositories: the first 1000 of what
  the API returned; and when the API call raises, it returns the empty list (after
  printing "Failed to fetch repos") instead of raising.
\<close>

theorem list_repos_at_most_1000:
  "length (fst (list_repos env s)) \<le> 1000
   \<and> (get_repos env (world s) = Ok rs \<longrightarrow> fst (list_repos env s) = take 1000 rs)
   \<and> (get_repos env (world s) = Raise e \<longrightarrow> fst (list_repos env s) = [])"
  by (auto simp: list_repos_def list_repos_limit_def slice_to_1000 split: res.splits)

theorem list_repos_at_most_1000_witness:
  "get_repos (stub_env [] no_effect (Ok (replicate 1001 (demo_repo ''a'')))) (world (start [])) =
     Ok (replicate 1001 (demo_repo ''a''))
   \<and> fst (list_repos (stub_env [] no_effect (Ok (replicate 1001 (demo_repo ''a'')))) (start [])) =
       replicate 1000 (demo_repo ''a'')
   \<and> get_repos (stub_env [] no_effect (Raise OSError)) (world (start [])) = Raise OSError
   \<and> fst (list_repos (stub_env [] no_effect (Raise OSError)) (start [])) = []"
  using list_repos_at_most_1000 [of "stub_env [] no_effect (Ok (replicate 1001 (demo_repo ''a'')))"
          "start []" "replicate 1001 (demo_repo ''a'')" OSError]
        list_repos_at_most_1000 [of "stub_env [] no_effect (Raise OSError)" "start []" "[]" OSError]
  by (simp add: stub_env_def)

subsection \<open>Failures of the credential fix-up\<close>

lemma proc_subprocess:
  "proc env c cwd (world s) = (r, w') \<Longrightarrow>
     subprocess env c cwd s = (r, \<lparr>world = w', events = events s @ [Call c cwd]\<rparr>)"
  by (simp add: subprocess_def)

lemma check_output_events:
  "events (snd (check_output env c s)) = events s @ [Call c None]"
  by (cases "check_output env c s") (auto dest: check_output_eq)

lemma fix_remote_get_url_fails:
  "fst (check_output env (get_url_cmd p) s) = Raise e \<Longrightarrow>
     fix_remote_with_token env tok p s = snd (check_output env (get_url_cmd p) s)"
  by (auto simp: fix_remote_with_token_def split: prod.splits res.splits)

text \<open>
  Claim C8, as stated, fails: "every failure of embedCredential is reported to the
  caller". When \<open>git remote get-url origin\<close> exits with status 2, \<open>fix_remote_with_token\<close>
  returns normally and the only event is the command itself: nothing is printed or
  logged. When \<open>git remote set-url\<close> exits with status 1, the only report is the log
  entry "Updated remote", the one a successful rewrite leaves.
\<close>

theorem fix_remote_failure_reported_counterexample:
  "fix_remote_with_token (stub_env [(''get-url'', Exited 2 [])] no_effect (Ok []))
       ''TOK'' ''/w/a'' (start [''/w/a''])
     = \<lparr>world = [''/w/a''], events = [Call (get_url_cmd ''/w/a'') None]\<rparr>
   \<and> events (fix_remote_with_token
         (stub_env [(''get-url'', Exited 0 ''https://github.com/gost/a.git''),
                    (''set-url'', Exited 1 [])] no_effect (Ok []))
         ''TOK'' ''/w/a'' (start [''/w/a'']))
     = [Call (get_url_cmd ''/w/a'') None,
        Call (set_url_cmd ''/w/a'' ''https://TOK@github.com/gost/a.git'') None,
        Log (LogUpdatedRemote ''/w/a'')]"
  by (simp add: fix_remote_with_token_def check_output_def subprocess_def stub_env_def start_def
        get_url_cmd_def no_effect_def strip_def py_isspace_def plain_https_def safe_run_def
        run_def set_url_cmd_def with_token_def py_replace_def)

text \<open>
  Claim C8, amended. \<open>fix_remote_with_token\<close> reports no failure to its caller: it always
  returns normally, prints nothing and logs no error. When reading the origin URL
  fails, the attempted command is all that happened. When the URL is plain HTTPS and
  \<open>set-url\<close> exits, with whatever status \<open>rc\<close>, the log entry "Updated remote" is written.
\<close>

theorem fix_remote_reports_nothing:
  "(\<forall>m. Print m \<notin> set (new_events s (fix_remote_with_token env tok p s)))
   \<and> (\<forall>n e. Log (LogError n e) \<notin> set (new_events s (fix_remote_with_token env tok p s)))
   \<and> (fst (check_output env (get_url_cmd p) s) = Raise e \<longrightarrow>
        new_events s (fix_remote_with_token env tok p s) = [Call (get_url_cmd p) None])
   \<and> (proc env (get_url_cmd p) None (world s) = (Exited 0 out, w1) \<and> plain_https (strip out) \<and>
        proc env (set_url_cmd p (with_token tok (strip out))) None w1 = (Exited rc out', w2) \<longrightarrow>
        new_events s (fix_remote_with_token env tok p s) =
          [Call (get_url_cmd p) None, Call (set_url_cmd p (with_token tok (strip out))) None,
           Log (LogUpdatedRemote p)])"
proof -
  obtain X where X: "events (fix_remote_with_token env tok p s) = events s @ Call (get_url_cmd p) None # X"
    and shape: "X = [] \<or> (\<exists>new. X = [Call (set_url_cmd p new) None] \<or>
                         X = [Call (set_url_cmd p new) None, Log (LogUpdatedRemote p)])"
    using fix_remote_events [of env tok p s] by blast
  have a: "\<forall>m. Print m \<notin> set (new_events s (fix_remote_with_token env tok p s))"
    using X shape by auto
  have b: "\<forall>n e. Log (LogError n e) \<notin> set (new_events s (fix_remote_with_token env tok p s))"
    using X shape by auto
  have c: "fst (check_output env (get_url_cmd p) s) = Raise e \<longrightarrow>
        new_events s (fix_remote_with_token env tok p s) = [Call (get_url_cmd p) None]"
    by (simp add: fix_remote_get_url_fails check_output_events)
  have d: "proc env (get_url_cmd p) None (world s) = (Exited 0 out, w1) \<and> plain_https (strip out) \<and>
        proc env (set_url_cmd p (with_token tok (strip out))) None w1 = (Exited rc out', w2) \<longrightarrow>
        new_events s (fix_remote_with_token env tok p s) =
          [Call (get_url_cmd p) None, Call (set_url_cmd p (with_token tok (strip out))) None,
           Log (LogUpdatedRemote p)]"
    by (auto simp: fix_remote_with_token_def check_output_def safe_run_def run_def proc_subprocess)
  from a b c d show ?thesis by blast
qed

theorem fix_remote_reports_nothing_witness:
  "fst (check_output (stub_env [(''get-url'', Exited 2 [])] no_effect (Ok []))
          (get_url_cmd ''/w/a'') (start [''/w/a''])) = Raise (CalledProcessError 2)
   \<and> new_events (start [''/w/a''])
        (fix_remote_with_token (stub_env [(''get-url'', Exited 2 [])] no_effect (Ok []))
           ''TOK'' ''/w/a'' (start [''/w/a''])) = [Call (get_url_cmd ''/w/a'') None]
   \<and> proc (stub_env [(''get-url'', Exited 0 (''https://github.com/gost/a.git'' @ [CHR 0xA0, CHR 0x0A])),
                     (''set-url'', Exited 1 [])] no_effect (Ok []))
        (get_url_cmd ''/w/a'') None (world (start [''/w/a''])) =
          (Exited 0 (''https://github.com/gost/a.git'' @ [CHR 0xA0, CHR 0x0A]), [''/w/a''])
   \<and> plain_https (strip (''https://github.com/gost/a.git'' @ [CHR 0xA0, CHR 0x0A]))
   \<and> proc (stub_env [(''get-url'', Exited 0 (''https://github.com/gost/a.git'' @ [CHR 0xA0, CHR 0x0A])),
                     (''set-url'', Exited 1 [])] no_effect (Ok []))
        (set_url_cmd ''/w/a'' (with_token ''TOK'' (strip (''https://github.com/gost/a.git'' @ [CHR 0xA0, CHR 0x0A])))) None
        [''/w/a''] = (Exited 1 [], [''/w/a''])
   \<and> new_events (start [''/w/a''])
        (fix_remote_with_token
           (stub_env [(''get-url'', Exited 0 (''https://github.com/gost/a.git'' @ [CHR 0xA0, CHR 0x0A])),
                      (''set-url'', Exited 1 [])] no_effect (Ok []))
           ''TOK'' ''/w/a'' (start [''/w/a''])) =
        [Call (get_url_cmd ''/w/a'') None,
         Call (set_url_cmd ''/w/a'' (with_token ''TOK'' (strip (''https://github.com/gost/a.git'' @ [CHR 0xA0, CHR 0x0A])))) None,
         Log (LogUpdatedRemote ''/w/a'')]
   \<and> with_token ''TOK'' (strip (''https://github.com/gost/a.git'' @ [CHR 0xA0, CHR 0x0A])) =
       ''https://TOK@github.com/gost/a.git''"
proof -
  have h5: "with_token ''TOK'' (strip (''https://github.com/gost/a.git'' @ [CHR 0xA0, CHR 0x0A])) =
       ''https://TOK@github.com/gost/a.git''"
    by (simp add: with_token_def py_replace_def strip_def py_isspace_def)
  have h1: "fst (check_output (stub_env [(''get-url'', Exited 2 [])] no_effect (Ok []))
          (get_url_cmd ''/w/a'') (start [''/w/a''])) = Raise (CalledProcessError 2)"
    by (simp add: check_output_def subprocess_def stub_env_def get_url_cmd_def)
  have h2: "proc (stub_env [(''get-url'', Exited 0 (''https://github.com/gost/a.git'' @ [CHR 0xA0, CHR 0x0A])),
                     (''set-url'', Exited 1 [])] no_effect (Ok []))
        (get_url_cmd ''/w/a'') None (world (start [''/w/a''])) =
          (Exited 0 (''https://github.com/gost/a.git'' @ [CHR 0xA0, CHR 0x0A]), [''/w/a''])"
    by (simp add: stub_env_def get_url_cmd_def no_effect_def start_def)
  have h3: "plain_https (strip (''https://github.com/gost/a.git'' @ [CHR 0xA0, CHR 0x0A]))"
    by (simp add: plain_https_def strip_def py_isspace_def)
  have h4: "proc (stub_env [(''get-url'', Exited 0 (''https://github.com/gost/a.git'' @ [CHR 0xA0, CHR 0x0A])),
                     (''set-url'', Exited 1 [])] no_effect (Ok []))
        (set_url_cmd ''/w/a'' (with_token ''TOK'' (strip (''https://github.com/gost/a.git'' @ [CHR 0xA0, CHR 0x0A])))) None
        [''/w/a''] = (Exited 1 [], [''/w/a''])"
    by (simp add: stub_env_def set_url_cmd_def no_effect_def with_token_def py_replace_def strip_def
          py_isspace_def)
  show ?thesis
    using h1 h2 h3 h4 h5
      fix_remote_reports_nothing [where env = "stub_env [(''get-url'', Exited 2 [])] no_effect (Ok [])"
        and s = "start [''/w/a'']" and p = "''/w/a''" and tok = "''TOK''" and e = "CalledProcessError 2"
        and out = "[]" and ?w1.0 = "[]" and rc = 0 and out' = "[]" and ?w2.0 = "[]"]
      fix_remote_reports_nothing [where env = "stub_env [(''get-url'', Exited 0 (''https://github.com/gost/a.git'' @ [CHR 0xA0, CHR 0x0A])),
                      (''set-url'', Exited 1 [])] no_effect (Ok [])"
        and s = "start [''/w/a'']" and p = "''/w/a''" and tok = "''TOK''" and e = "OSError"
        and out = "(''https://github.com/gost/a.git'' @ [CHR 0xA0, CHR 0x0A])" and ?w1.0 = "[''/w/a'']" and rc = 1 and out' = "[]"
        and ?w2.0 = "[''/w/a'']"]
    by blast
qed

subsection \<open>The commit step\<close>

lemma commit_if_dirty_exit:
  assumes "run env (add_cmd path) None True s = (Ok (), s1)"
      and "proc env (commit_cmd path m) None (world s1) = (Exited rc out, w2)"
  shows "commit_if_dirty env path m s =
           (Ok (rc = 0), \<lparr>world = w2, events = events s @ [Call (add_cmd path) None, Call (commit_cmd path m) None]\<rparr>)"
  using assms run_eq [OF assms(1)]
  by (simp add: commit_if_dirty_def subprocess_run_def proc_subprocess)

lemma commit_if_dirty_eq:
  "commit_if_dirty env path m s = (r, s') \<Longrightarrow>
     (case r of
        Ok b \<Rightarrow> events s' = events s @ [Call (add_cmd path) None, Call (commit_cmd path m) None]
      | Raise e \<Rightarrow> events s' = events s @ [Call (add_cmd path) None] \<or>
                   events s' = events s @ [Call (add_cmd path) None, Call (commit_cmd path m) None])"
  by (auto simp: commit_if_dirty_def dest!: run_eq subprocess_run_eq split: prod.splits res.splits)

text \<open>
  Claim C3, as stated, fails: "a commit failure from another cause is a distinct
  CommitError, not the false result". \<open>git commit\<close> exits with 1 when there is nothing
  to commit and with 128 on a fatal error (an unknown author identity, a corrupt
  index). The commit step gives the same false result for both, and the batch Push step
  prints "Nothing to commit" under status 128.
\<close>

theorem commit_error_distinct_counterexample:
  "fst (commit_if_dirty (stub_env [(''commit'', Exited 128 [])] no_effect (Ok []))
          ''/w/a'' ''m'' (start [''/w/a''])) = Ok False
   \<and> fst (commit_if_dirty (stub_env [(''commit'', Exited 1 [])] no_effect (Ok []))
          ''/w/a'' ''m'' (start [''/w/a''])) = Ok False
   \<and> new_events (start [''/w/a''])
        (snd (batch_push (stub_env [(''commit'', Exited 128 [])] no_effect (Ok []))
           ''a'' ''/w/a'' ''m'' (start [''/w/a'']))) =
        [Call (add_cmd ''/w/a'') None, Call (commit_cmd ''/w/a'' ''m'') None, Print MsgNothingToCommit]"
  by (simp add: commit_if_dirty_def batch_push_def run_def subprocess_run_def subprocess_def
        stub_env_def start_def add_cmd_def commit_cmd_def no_effect_def new_events_def)

lemma run_world:
  "run env c cwd silent s = (r, s') \<Longrightarrow> world s' = snd (proc env c cwd (world s))"
  by (auto simp: run_def Let_def subprocess_def split: prod.splits proc_result.splits if_splits)

lemma commit_if_dirty_add_fails:
  "run env (add_cmd path) None True s = (Raise e, s1) \<Longrightarrow>
     commit_if_dirty env path m s = (Raise e, s1)"
  by (simp add: commit_if_dirty_def)

lemma commit_if_dirty_launch_fails:
  assumes "run env (add_cmd path) None True s = (Ok (), s1)"
      and "proc env (commit_cmd path m) None (world s1) = (LaunchFailed, w2)"
  shows "commit_if_dirty env path m s =
           (Raise OSError, \<lparr>world = w2, events = events s @ [Call (add_cmd path) None, Call (commit_cmd path m) None]\<rparr>)"
  using assms run_eq [OF assms(1)]
  by (simp add: commit_if_dirty_def subprocess_run_def proc_subprocess)

text \<open>
  Claim C3, amended. The commit step first stages everything. When \<open>git add\<close> raises, the
  step raises the same error and no commit command is started; the batch Push step
  passes the error on, and the turn is reported as "Failed for \<open>\<dots>\<close>". When \<open>git add\<close> succeeds, exactly one commit command is started,
  and the result is decided by how that command ends alone: true when it exits with
  status 0, false when it exits with any other status, whatever made the commit fail
  (then the batch Push step reports "Nothing to commit" and ends normally), and an
  \<open>OSError\<close> when the command cannot be started. No exit status of the commit command
  raises an error.
\<close>

theorem commit_step_outcomes:
  "(run env (add_cmd path) None True s = (Raise e, s1) \<longrightarrow>
      commit_if_dirty env path m s = (Raise e, s1)
      \<and> new_events s s1 = [Call (add_cmd path) None]
      \<and> batch_push env n path m s = (Raise e, s1))
   \<and> (run env (add_cmd (path_join WORKSPACE n)) None True
        (fix_remote_with_token env tok (path_join WORKSPACE n) (console_print (MsgRepo n) t)) = (Raise e, t1) \<longrightarrow>
      batch_repo env tok ''2'' m n t = log_action (LogError n e) (console_print (MsgFailedFor n e) t1))
   \<and> (run env (add_cmd path) None True s = (Ok (), s1) \<and>
      proc env (commit_cmd path m) None (world s1) = (Exited rc out, w2) \<longrightarrow>
      fst (commit_if_dirty env path m s) = Ok (rc = 0)
      \<and> new_events s (snd (commit_if_dirty env path m s)) =
           [Call (add_cmd path) None, Call (commit_cmd path m) None]
      \<and> (rc \<noteq> 0 \<longrightarrow>
            batch_push env n path m s =
              (Ok (), console_print MsgNothingToCommit (snd (commit_if_dirty env path m s)))))
   \<and> (run env (add_cmd path) None True s = (Ok (), s1) \<and>
      proc env (commit_cmd path m) None (world s1) = (LaunchFailed, w2) \<longrightarrow>
      fst (commit_if_dirty env path m s) = Raise OSError
      \<and> new_events s (snd (commit_if_dirty env path m s)) =
           [Call (add_cmd path) None, Call (commit_cmd path m) None])"
proof -
  have a: "commit_if_dirty env path m s = (Raise e, s1)
      \<and> new_events s s1 = [Call (add_cmd path) None]
      \<and> batch_push env n path m s = (Raise e, s1)"
    if add: "run env (add_cmd path) None True s = (Raise e, s1)"
    using commit_if_dirty_add_fails [OF add, of m] run_eq [OF add]
    by (simp add: batch_push_def)
  have b: "fst (commit_if_dirty env path m s) = Ok (rc = 0)
      \<and> new_events s (snd (commit_if_dirty env path m s)) =
           [Call (add_cmd path) None, Call (commit_cmd path m) None]
      \<and> (rc \<noteq> 0 \<longrightarrow>
            batch_push env n path m s =
              (Ok (), console_print MsgNothingToCommit (snd (commit_if_dirty env path m s))))"
    if add: "run env (add_cmd path) None True s = (Ok (), s1)"
      and com: "proc env (commit_cmd path m) None (world s1) = (Exited rc out, w2)"
    using commit_if_dirty_exit [OF add com]
    by (simp add: batch_push_def)
  have c: "fst (commit_if_dirty env path m s) = Raise OSError
      \<and> new_events s (snd (commit_if_dirty env path m s)) =
           [Call (add_cmd path) None, Call (commit_cmd path m) None]"
    if add: "run env (add_cmd path) None True s = (Ok (), s1)"
      and com: "proc env (commit_cmd path m) None (world s1) = (LaunchFailed, w2)"
    using commit_if_dirty_launch_fails [OF add com]
    by simp
  have d: "batch_repo env tok ''2'' m n t = log_action (LogError n e) (console_print (MsgFailedFor n e) t1)"
    if "run env (add_cmd (path_join WORKSPACE n)) None True
        (fix_remote_with_token env tok (path_join WORKSPACE n) (console_print (MsgRepo n) t)) = (Raise e, t1)"
    using that by (simp add: batch_repo_def Let_def batch_try_def batch_push_def commit_if_dirty_def)
  from a b c d show ?thesis by blast
qed

theorem commit_step_outcomes_witness:
  "run (stub_env [(''add'', Exited 1 [])] no_effect (Ok [])) (add_cmd ''/w/a'') None True (start [''/w/a'']) =
     (Raise (CalledProcessError 1), \<lparr>world = [''/w/a''], events = [Call (add_cmd ''/w/a'') None]\<rparr>)
   \<and> commit_if_dirty (stub_env [(''add'', Exited 1 [])] no_effect (Ok [])) ''/w/a'' ''m'' (start [''/w/a'']) =
     (Raise (CalledProcessError 1), \<lparr>world = [''/w/a''], events = [Call (add_cmd ''/w/a'') None]\<rparr>)
   \<and> new_events (start [])
        (batch_repo (stub_env [(''add'', Exited 1 [])] no_effect (Ok [])) ''TOK'' ''2'' ''m'' ''a'' (start [])) =
       [Print (MsgRepo ''a''), Call (get_url_cmd ''/home/gost/7heBlackLand/a'') None,
        Call (add_cmd ''/home/gost/7heBlackLand/a'') None,
        Print (MsgFailedFor ''a'' (CalledProcessError 1)), Log (LogError ''a'' (CalledProcessError 1))]
   \<and> run (stub_env [(''commit'', Exited 128 [])] no_effect (Ok [])) (add_cmd ''/w/a'') None True
       (start [''/w/a'']) =
     (Ok (), \<lparr>world = [''/w/a''], events = [Call (add_cmd ''/w/a'') None]\<rparr>)
   \<and> proc (stub_env [(''commit'', Exited 128 [])] no_effect (Ok [])) (commit_cmd ''/w/a'' ''m'') None
       [''/w/a''] = (Exited 128 [], [''/w/a''])
   \<and> fst (commit_if_dirty (stub_env [(''commit'', Exited 128 [])] no_effect (Ok []))
          ''/w/a'' ''m'' (start [''/w/a''])) = Ok False
   \<and> new_events (start [''/w/a''])
        (snd (commit_if_dirty (stub_env [(''commit'', Exited 128 [])] no_effect (Ok []))
           ''/w/a'' ''m'' (start [''/w/a'']))) =
        [Call (add_cmd ''/w/a'') None, Call (commit_cmd ''/w/a'' ''m'') None]
   \<and> proc (stub_env [] no_effect (Ok [])) (commit_cmd ''/w/a'' ''m'') None [''/w/a''] =
       (Exited 0 [], [''/w/a''])
   \<and> fst (commit_if_dirty (stub_env [] no_effect (Ok [])) ''/w/a'' ''m'' (start [''/w/a''])) = Ok True
   \<and> proc (stub_env [(''commit'', LaunchFailed)] no_effect (Ok [])) (commit_cmd ''/w/a'' ''m'') None
       [''/w/a''] = (LaunchFailed, [''/w/a''])
   \<and> fst (commit_if_dirty (stub_env [(''commit'', LaunchFailed)] no_effect (Ok []))
          ''/w/a'' ''m'' (start [''/w/a''])) = Raise OSError"
proof -
  let ?s1 = "\<lparr>world = [''/w/a''], events = [Call (add_cmd ''/w/a'') None]\<rparr>"
  have h0: "run (stub_env [(''add'', Exited 1 [])] no_effect (Ok [])) (add_cmd ''/w/a'') None True
       (start [''/w/a'']) = (Raise (CalledProcessError 1), ?s1)"
    by (simp add: run_def subprocess_def stub_env_def start_def add_cmd_def no_effect_def)
  have h1: "run (stub_env [(''commit'', Exited 128 [])] no_effect (Ok [])) (add_cmd ''/w/a'') None True
       (start [''/w/a'']) = (Ok (), ?s1)"
    by (simp add: run_def subprocess_def stub_env_def start_def add_cmd_def no_effect_def)
  have h2: "proc (stub_env [(''commit'', Exited 128 [])] no_effect (Ok [])) (commit_cmd ''/w/a'' ''m'') None
       (world ?s1) = (Exited 128 [], [''/w/a''])"
    by (simp add: stub_env_def commit_cmd_def no_effect_def)
  have h3: "run (stub_env [] no_effect (Ok [])) (add_cmd ''/w/a'') None True (start [''/w/a'']) = (Ok (), ?s1)"
    by (simp add: run_def subprocess_def stub_env_def start_def add_cmd_def no_effect_def)
  have h4: "proc (stub_env [] no_effect (Ok [])) (commit_cmd ''/w/a'' ''m'') None
       (world ?s1) = (Exited 0 [], [''/w/a''])"
    by (simp add: stub_env_def commit_cmd_def no_effect_def)
  have h5: "run (stub_env [(''commit'', LaunchFailed)] no_effect (Ok [])) (add_cmd ''/w/a'') None True
       (start [''/w/a'']) = (Ok (), ?s1)"
    by (simp add: run_def subprocess_def stub_env_def start_def add_cmd_def no_effect_def)
  have h6: "proc (stub_env [(''commit'', LaunchFailed)] no_effect (Ok [])) (commit_cmd ''/w/a'' ''m'') None
       (world ?s1) = (LaunchFailed, [''/w/a''])"
    by (simp add: stub_env_def commit_cmd_def no_effect_def)
  show ?thesis
    using h0 h1 h2 h3 h4 h5 h6
      commit_step_outcomes [where env = "stub_env [(''add'', Exited 1 [])] no_effect (Ok [])"
        and path = "''/w/a''" and s = "start [''/w/a'']" and e = "CalledProcessError 1" and ?s1.0 = ?s1
        and m = "''m''" and n = "''a''" and rc = 0 and out = "[]" and ?w2.0 = "[]"
        and tok = "''TOK''" and t = "start []"
        and ?t1.0 = "\<lparr>world = [], events = [Print (MsgRepo ''a''),
              Call (get_url_cmd ''/home/gost/7heBlackLand/a'') None,
              Call (add_cmd ''/home/gost/7heBlackLand/a'') None]\<rparr>"]
      commit_step_outcomes [where env = "stub_env [(''commit'', Exited 128 [])] no_effect (Ok [])"
        and path = "''/w/a''" and s = "start [''/w/a'']" and e = OSError and ?s1.0 = ?s1
        and m = "''m''" and n = "''a''" and rc = 128 and out = "[]" and ?w2.0 = "[''/w/a'']"]
      commit_step_outcomes [where env = "stub_env [] no_effect (Ok [])"
        and path = "''/w/a''" and s = "start [''/w/a'']" and e = OSError and ?s1.0 = ?s1
        and m = "''m''" and n = "''a''" and rc = 0 and out = "[]" and ?w2.0 = "[''/w/a'']"]
      commit_step_outcomes [where env = "stub_env [(''commit'', LaunchFailed)] no_effect (Ok [])"
        and path = "''/w/a''" and s = "start [''/w/a'']" and e = OSError and ?s1.0 = ?s1
        and m = "''m''" and n = "''a''" and rc = 0 and out = "[]" and ?w2.0 = "[''/w/a'']"]
    by (simp add: run_defs)
qed

subsection \<open>The batch loop, one repository\<close>

lemma batch_try_push: "batch_try env ''2'' m n path s = batch_push env n path m s"
  by (simp add: batch_try_def)

lemma batch_try_sync:
  "batch_try env ''3'' m n path s =
     (case run env (pull_cmd path) None True s of
        (Raise e, s1) \<Rightarrow> (Raise e, s1)
      | (Ok u, s1) \<Rightarrow> batch_push env n path m (log_action (LogPulled n) s1))"
  by (simp add: batch_try_def batch_pull_def split: prod.splits res.splits)

lemma batch_push_committed:
  "commit_if_dirty env path m s = (Ok True, s1) \<Longrightarrow>
     Call (push_cmd path) None \<in> set (new_events s (snd (batch_push env n path m s)))"
  by (auto simp: batch_push_def push_cmd_def add_cmd_def commit_cmd_def
           dest!: commit_if_dirty_eq run_eq split: prod.splits res.splits)

lemma batch_push_not_committed:
  "commit_if_dirty env path m s = (r, s1) \<Longrightarrow> r \<noteq> Ok True \<Longrightarrow>
     Call (push_cmd path) None \<notin> set (new_events s (snd (batch_push env n path m s)))"
  by (auto simp: batch_push_def push_cmd_def add_cmd_def commit_cmd_def
           dest!: commit_if_dirty_eq split: prod.splits res.splits)

lemma batch_push_committed_iff:
  "Call (push_cmd path) None \<in> set (new_events s (snd (batch_push env n path m s)))
     \<longleftrightarrow> fst (commit_if_dirty env path m s) = Ok True"
  using batch_push_committed [of env path m s "snd (commit_if_dirty env path m s)" n]
        batch_push_not_committed [of env path m s "fst (commit_if_dirty env path m s)"
           "snd (commit_if_dirty env path m s)" n]
  by (cases "commit_if_dirty env path m s") auto

lemma batch_push_prefix:
  "\<exists>X. events (snd (batch_push env n path m s)) = events s @ X"
  by (auto simp: batch_push_def dest!: commit_if_dirty_eq run_eq split: prod.splits res.splits)

lemma push_not_fix_event:
  "events s0 = events s @ Print (MsgRepo n) # Call (get_url_cmd p) None # X \<Longrightarrow>
   X = [] \<or> (\<exists>new. X = [Call (set_url_cmd p new) None] \<or>
                         X = [Call (set_url_cmd p new) None, Log (LogUpdatedRemote p)]) \<Longrightarrow>
   events s' = events s0 @ Y \<Longrightarrow>
   Call (push_cmd p) None \<in> set (new_events s s') \<longleftrightarrow> Call (push_cmd p) None \<in> set Y"
  by (auto simp: push_cmd_def get_url_cmd_def set_url_cmd_def)


lemma batch_repo_push_events:
  "\<exists>Z. events (batch_repo env tok ''2'' m n s) =
         events (snd (batch_push env n (path_join WORKSPACE n) m
            (fix_remote_with_token env tok (path_join WORKSPACE n) (console_print (MsgRepo n) s)))) @ Z
       \<and> (\<forall>c cwd. Call c cwd \<notin> set Z)"
  by (auto simp: batch_repo_def Let_def batch_try_push split: prod.splits res.splits)

text \<open>
  Claim C5. Under the Push policy (choice 2 of the batch manager), for every
  repository, the push command is started if and only if the commit step returned
  true; when it returned false, the turn ends with "Nothing to commit" right after
  the commit step, and no push is started.
\<close>

theorem push_iff_committed:
  assumes "path = path_join WORKSPACE n"
      and "s0 = fix_remote_with_token env tok path (console_print (MsgRepo n) s)"
  shows "(Call (push_cmd path) None \<in> set (new_events s (batch_repo env tok ''2'' m n s))
            \<longleftrightarrow> fst (commit_if_dirty env path m s0) = Ok True)
       \<and> (fst (commit_if_dirty env path m s0) = Ok False \<longrightarrow>
            batch_repo env tok ''2'' m n s =
              console_print MsgNothingToCommit (snd (commit_if_dirty env path m s0)))"
proof -
  obtain X where X: "events s0 = events (console_print (MsgRepo n) s) @ Call (get_url_cmd path) None # X"
    and shape: "X = [] \<or> (\<exists>new. X = [Call (set_url_cmd path new) None] \<or>
                         X = [Call (set_url_cmd path new) None, Log (LogUpdatedRemote path)])"
    using fix_remote_events [of env tok path "console_print (MsgRepo n) s"] assms(2) by blast
  obtain Y where Y: "events (snd (batch_push env n path m s0)) = events s0 @ Y"
    using batch_push_prefix by blast
  obtain Z where Z: "events (batch_repo env tok ''2'' m n s) = events (snd (batch_push env n path m s0)) @ Z"
    and noZ: "\<forall>c cwd. Call c cwd \<notin> set Z"
    using batch_repo_push_events [of env tok m n s] assms by blast
  have s0: "events s0 = events s @ Print (MsgRepo n) # Call (get_url_cmd path) None # X"
    using X by simp
  have "Call (push_cmd path) None \<in> set (new_events s (batch_repo env tok ''2'' m n s))
          \<longleftrightarrow> Call (push_cmd path) None \<in> set (new_events s (snd (batch_push env n path m s0)))"
    using Z Y s0 noZ by auto
  also have "\<dots> \<longleftrightarrow> Call (push_cmd path) None \<in> set Y"
    using push_not_fix_event [OF s0 shape Y] .
  also have "\<dots> \<longleftrightarrow> Call (push_cmd path) None \<in> set (new_events s0 (snd (batch_push env n path m s0)))"
    using Y by simp
  also have "\<dots> \<longleftrightarrow> fst (commit_if_dirty env path m s0) = Ok True"
    by (rule batch_push_committed_iff)
  finally have a: "Call (push_cmd path) None \<in> set (new_events s (batch_repo env tok ''2'' m n s))
            \<longleftrightarrow> fst (commit_if_dirty env path m s0) = Ok True" .
  have b: "fst (commit_if_dirty env path m s0) = Ok False \<longrightarrow>
            batch_repo env tok ''2'' m n s =
              console_print MsgNothingToCommit (snd (commit_if_dirty env path m s0))"
    using assms
    by (auto simp: batch_repo_def Let_def batch_try_push batch_push_def split: prod.splits res.splits)
  from a b show ?thesis by blast
qed

theorem push_iff_committed_witness:
  "Call (push_cmd ''/home/gost/7heBlackLand/a'') None \<in>
     set (new_events (start [])
            (batch_repo (stub_env [] no_effect (Ok [])) ''TOK'' ''2'' ''m'' ''a'' (start [])))
   \<and> Call (push_cmd ''/home/gost/7heBlackLand/a'') None \<notin>
     set (new_events (start [])
            (batch_repo (stub_env [(''commit'', Exited 1 [])] no_effect (Ok [])) ''TOK'' ''2'' ''m'' ''a''
               (start [])))
   \<and> new_events (start [])
        (batch_repo (stub_env [(''commit'', Exited 1 [])] no_effect (Ok [])) ''TOK'' ''2'' ''m'' ''a''
           (start [])) =
      [Print (MsgRepo ''a''), Call (get_url_cmd ''/home/gost/7heBlackLand/a'') None,
       Call (add_cmd ''/home/gost/7heBlackLand/a'') None,
       Call (commit_cmd ''/home/gost/7heBlackLand/a'' ''m'') None, Print MsgNothingToCommit]"
  using push_iff_committed [OF refl refl, where env = "stub_env [] no_effect (Ok [])" and n = "''a''"
          and m = "''m''" and tok = "''TOK''" and s = "start []"]
        push_iff_committed [OF refl refl, where env = "stub_env [(''commit'', Exited 1 [])] no_effect (Ok [])"
          and n = "''a''" and m = "''m''" and tok = "''TOK''" and s = "start []"]
  by (simp add: run_defs)

subsection \<open>Sync: pull, then push\<close>

text \<open>
  Claim C1, as stated, fails: "a failure of the pull step does not prevent the
  subsequent Push steps". With a \<open>git pull\<close> that exits with status 1, the batch manager
  under choice 3 starts no \<open>add\<close>, \<open>commit\<close> or \<open>push\<close> for that repository: after the
  credential fix-up and the pull it reports "Failed for a". The per-repo manager under
  choice 3 does the same.
\<close>

theorem sync_push_after_failed_pull_counterexample:
  "new_events (start [])
     (batch_repo (stub_env [(''pull'', Exited 1 [])] no_effect (Ok [])) ''TOK'' ''3'' ''m'' ''a'' (start []))
     = [Print (MsgRepo ''a''), Call (get_url_cmd ''/home/gost/7heBlackLand/a'') None,
        Call (pull_cmd ''/home/gost/7heBlackLand/a'') None,
        Print (MsgFailedFor ''a'' (CalledProcessError 1)), Log (LogError ''a'' (CalledProcessError 1))]
   \<and> new_events (start [])
     (per_repo_choice (stub_env [(''pull'', Exited 1 [])] no_effect (Ok [])) ''/w/a'' ''3'' ''m'' (start []))
     = [Call (pull_cmd ''/w/a'') None, Print (MsgSyncFailed (CalledProcessError 1))]"
  by (simp add: run_defs per_repo_choice_def)

text \<open>
  Claim C1, amended. Under the Sync policy the pull and the Push steps are one block: a
  failed pull ends the repository's turn. In the batch manager (choice 3), after the
  credential fix-up, a pull that raises is followed only by the report "Failed for
  \<open>\<dots>\<close>" and its log entry; a pull that succeeds is followed by the Push steps, starting
  with \<open>git add\<close>. In the per-repo manager (choice 3) a pull that raises is followed only
  by "Sync failed".
\<close>

theorem sync_failed_pull_ends_turn:
  assumes "path = path_join WORKSPACE n"
      and "s0 = fix_remote_with_token env tok path (console_print (MsgRepo n) s)"
  shows "(run env (pull_cmd path) None True s0 = (Raise e, s1) \<longrightarrow>
            batch_repo env tok ''3'' m n s =
              log_action (LogError n e) (console_print (MsgFailedFor n e) s1)
            \<and> new_events s0 (batch_repo env tok ''3'' m n s) =
                [Call (pull_cmd path) None, Print (MsgFailedFor n e), Log (LogError n e)])
       \<and> (run env (pull_cmd path) None True s0 = (Ok (), s1) \<longrightarrow>
            take 3 (new_events s0 (batch_repo env tok ''3'' m n s)) =
              [Call (pull_cmd path) None, Log (LogPulled n), Call (add_cmd path) None])
       \<and> (run env (pull_cmd p) None True t = (Raise e, t1) \<longrightarrow>
            per_repo_choice env p ''3'' m t = console_print (MsgSyncFailed e) t1
            \<and> new_events t (per_repo_choice env p ''3'' m t) =
                [Call (pull_cmd p) None, Print (MsgSyncFailed e)])"
proof -
  have a: "run env (pull_cmd path) None True s0 = (Raise e, s1) \<longrightarrow>
            batch_repo env tok ''3'' m n s =
              log_action (LogError n e) (console_print (MsgFailedFor n e) s1)
            \<and> new_events s0 (batch_repo env tok ''3'' m n s) =
                [Call (pull_cmd path) None, Print (MsgFailedFor n e), Log (LogError n e)]"
    using assms by (auto simp: batch_repo_def Let_def batch_try_sync dest!: run_eq)
  have b: "run env (pull_cmd path) None True s0 = (Ok (), s1) \<longrightarrow>
            take 3 (new_events s0 (batch_repo env tok ''3'' m n s)) =
              [Call (pull_cmd path) None, Log (LogPulled n), Call (add_cmd path) None]"
    using assms
    by (auto simp: batch_repo_def Let_def batch_try_sync batch_push_def
             dest!: run_eq commit_if_dirty_eq split: prod.splits res.splits)
  have c: "run env (pull_cmd p) None True t = (Raise e, t1) \<longrightarrow>
            per_repo_choice env p ''3'' m t = console_print (MsgSyncFailed e) t1
            \<and> new_events t (per_repo_choice env p ''3'' m t) =
                [Call (pull_cmd p) None, Print (MsgSyncFailed e)]"
    by (auto simp: per_repo_choice_def dest!: run_eq)
  from a b c show ?thesis by blast
qed


theorem sync_failed_pull_ends_turn_witness:
  "run (stub_env [(''pull'', Exited 1 [])] no_effect (Ok [])) (pull_cmd (path_join WORKSPACE ''a'')) None True
      (fix_remote_with_token (stub_env [(''pull'', Exited 1 [])] no_effect (Ok [])) ''TOK''
         (path_join WORKSPACE ''a'') (console_print (MsgRepo ''a'') (start [])))
     = (Raise (CalledProcessError 1),
        \<lparr>world = [], events = [Print (MsgRepo ''a''), Call (get_url_cmd ''/home/gost/7heBlackLand/a'') None,
                                Call (pull_cmd ''/home/gost/7heBlackLand/a'') None]\<rparr>)
   \<and> events (batch_repo (stub_env [(''pull'', Exited 1 [])] no_effect (Ok [])) ''TOK'' ''3'' ''m'' ''a'' (start []))
     = [Print (MsgRepo ''a''), Call (get_url_cmd ''/home/gost/7heBlackLand/a'') None,
        Call (pull_cmd ''/home/gost/7heBlackLand/a'') None,
        Print (MsgFailedFor ''a'' (CalledProcessError 1)), Log (LogError ''a'' (CalledProcessError 1))]
   \<and> run (stub_env [] no_effect (Ok [])) (pull_cmd (path_join WORKSPACE ''a'')) None True
      (fix_remote_with_token (stub_env [] no_effect (Ok [])) ''TOK''
         (path_join WORKSPACE ''a'') (console_print (MsgRepo ''a'') (start [])))
     = (Ok (),
        \<lparr>world = [], events = [Print (MsgRepo ''a''), Call (get_url_cmd ''/home/gost/7heBlackLand/a'') None,
                                Call (pull_cmd ''/home/gost/7heBlackLand/a'') None]\<rparr>)
   \<and> take 5 (events (batch_repo (stub_env [] no_effect (Ok [])) ''TOK'' ''3'' ''m'' ''a'' (start [])))
     = [Print (MsgRepo ''a''), Call (get_url_cmd ''/home/gost/7heBlackLand/a'') None,
        Call (pull_cmd ''/home/gost/7heBlackLand/a'') None, Log (LogPulled ''a''),
        Call (add_cmd ''/home/gost/7heBlackLand/a'') None]
   \<and> run (stub_env [(''pull'', Exited 1 [])] no_effect (Ok [])) (pull_cmd ''/w/a'') None True (start [])
     = (Raise (CalledProcessError 1), \<lparr>world = [], events = [Call (pull_cmd ''/w/a'') None]\<rparr>)
   \<and> events (per_repo_choice (stub_env [(''pull'', Exited 1 [])] no_effect (Ok [])) ''/w/a'' ''3'' ''m'' (start []))
     = [Call (pull_cmd ''/w/a'') None, Print (MsgSyncFailed (CalledProcessError 1))]"
  using sync_failed_pull_ends_turn [OF refl refl,
          where env = "stub_env [(''pull'', Exited 1 [])] no_effect (Ok [])" and tok = "''TOK''"
            and n = "''a''" and m = "''m''" and s = "start []" and e = "CalledProcessError 1"
            and ?s1.0 = "\<lparr>world = [], events = [Print (MsgRepo ''a''),
                  Call (get_url_cmd ''/home/gost/7heBlackLand/a'') None,
                  Call (pull_cmd ''/home/gost/7heBlackLand/a'') None]\<rparr>"
            and p = "''/w/a''" and t = "start []"
            and ?t1.0 = "\<lparr>world = [], events = [Call (pull_cmd ''/w/a'') None]\<rparr>"]
        sync_failed_pull_ends_turn [OF refl refl,
          where env = "stub_env [] no_effect (Ok [])" and tok = "''TOK''"
            and n = "''a''" and m = "''m''" and s = "start []" and e = "CalledProcessError 1"
            and ?s1.0 = "\<lparr>world = [], events = [Print (MsgRepo ''a''),
                  Call (get_url_cmd ''/home/gost/7heBlackLand/a'') None,
                  Call (pull_cmd ''/home/gost/7heBlackLand/a'') None]\<rparr>"
            and p = "''/w/a''" and t = "start []"
            and ?t1.0 = "\<lparr>world = [], events = [Call (pull_cmd ''/w/a'') None]\<rparr>"]
  by (simp add: run_defs per_repo_choice_def)

subsection \<open>Cloning\<close>

lemma clone_one_exists:
  "path_exists env (world s) (path_join WORKSPACE (name r)) \<Longrightarrow>
     clone_one env tok r s =
       fix_remote_with_token env tok (path_join WORKSPACE (name r))
         (console_print (MsgAlreadyExists (name r)) s)"
  by (simp add: clone_one_def)

lemma clone_one_exists_events:
  assumes "path_exists env (world s) (path_join WORKSPACE (name r))"
  shows "\<exists>X. events (clone_one env tok r s) =
           events s @ Print (MsgAlreadyExists (name r)) #
             Call (get_url_cmd (path_join WORKSPACE (name r))) None # X
         \<and> (\<forall>c cwd. Call c cwd \<in> set X \<longrightarrow> (\<exists>new. c = set_url_cmd (path_join WORKSPACE (name r)) new))
         \<and> (\<forall>p. Rmtree p \<notin> set X)"
  using fix_remote_events [of env tok "path_join WORKSPACE (name r)" "console_print (MsgAlreadyExists (name r)) s"]
        clone_one_exists [OF assms, of tok]
  by auto

lemma clone_one_absent_failed:
  assumes "\<not> path_exists env (world s) (path_join WORKSPACE (name r))"
      and "run env (clone_cmd (token_url tok (clone_url r)) (path_join WORKSPACE (name r))) None True
             (console_print (MsgCloning (full_name r)) s) = (Raise e, s2)"
  shows "clone_one env tok r s = console_print (MsgFailedClone (name r) e) s2"
    and "events (clone_one env tok r s) =
           events s @ [Print (MsgCloning (full_name r)),
                       Call (clone_cmd (token_url tok (clone_url r)) (path_join WORKSPACE (name r))) None,
                       Print (MsgFailedClone (name r) e)]"
  using assms run_eq [OF assms(2)] by (simp_all add: clone_one_def Let_def)

lemma clone_one_absent_cloned:
  assumes "\<not> path_exists env (world s) (path_join WORKSPACE (name r))"
      and "run env (clone_cmd (token_url tok (clone_url r)) (path_join WORKSPACE (name r))) None True
             (console_print (MsgCloning (full_name r)) s) = (Ok (), s2)"
  shows "\<exists>X. events (clone_one env tok r s) =
           events s @ Print (MsgCloning (full_name r)) #
             Call (clone_cmd (token_url tok (clone_url r)) (path_join WORKSPACE (name r))) None #
             Call (get_url_cmd (path_join WORKSPACE (name r))) None # X
         \<and> (\<forall>p. Rmtree p \<notin> set X)"
  using assms run_eq [OF assms(2)]
        fix_remote_events [of env tok "path_join WORKSPACE (name r)" s2]
  by (auto simp: clone_one_def Let_def)

lemma clone_not_set_url [simp]: "clone_cmd url d \<noteq> set_url_cmd p new" "clone_cmd url d \<noteq> get_url_cmd p"
  by (simp_all add: clone_cmd_def set_url_cmd_def get_url_cmd_def)

text \<open>
  Claim C2. Under the Clone policy, for every repository: if the destination directory
  exists, the turn is "Already exists, skipping" followed by the credential fix-up on
  that directory, and no \<open>git clone\<close> is started; if it does not exist, \<open>git clone\<close> to the
  destination is started first, and the credential fix-up follows it once the clone
  command has succeeded (a clone that raises ends the turn with "Failed to clone").
\<close>

theorem clone_skips_existing_directory:
  assumes "dst = path_join WORKSPACE (name r)"
      and "url = token_url tok (clone_url r)"
  shows "(path_exists env (world s) dst \<longrightarrow>
            clone_one env tok r s =
              fix_remote_with_token env tok dst (console_print (MsgAlreadyExists (name r)) s)
            \<and> take 2 (new_events s (clone_one env tok r s)) =
                [Print (MsgAlreadyExists (name r)), Call (get_url_cmd dst) None]
            \<and> (\<forall>u d cwd. Call (clone_cmd u d) cwd \<notin> set (new_events s (clone_one env tok r s))))
       \<and> (\<not> path_exists env (world s) dst \<longrightarrow>
            take 2 (new_events s (clone_one env tok r s)) =
              [Print (MsgCloning (full_name r)), Call (clone_cmd url dst) None]
            \<and> (fst (run env (clone_cmd url dst) None True (console_print (MsgCloning (full_name r)) s)) = Ok ()
                 \<longrightarrow> take 3 (new_events s (clone_one env tok r s)) =
                       [Print (MsgCloning (full_name r)), Call (clone_cmd url dst) None,
                        Call (get_url_cmd dst) None])
            \<and> (fst (run env (clone_cmd url dst) None True (console_print (MsgCloning (full_name r)) s)) = Raise e
                 \<longrightarrow> new_events s (clone_one env tok r s) =
                       [Print (MsgCloning (full_name r)), Call (clone_cmd url dst) None,
                        Print (MsgFailedClone (name r) e)]))"
proof -
  let ?run = "run env (clone_cmd url dst) None True (console_print (MsgCloning (full_name r)) s)"
  have a: "path_exists env (world s) dst \<longrightarrow>
            clone_one env tok r s =
              fix_remote_with_token env tok dst (console_print (MsgAlreadyExists (name r)) s)
            \<and> take 2 (new_events s (clone_one env tok r s)) =
                [Print (MsgAlreadyExists (name r)), Call (get_url_cmd dst) None]
            \<and> (\<forall>u d cwd. Call (clone_cmd u d) cwd \<notin> set (new_events s (clone_one env tok r s)))"
  proof
    assume ex: "path_exists env (world s) dst"
    then obtain X where X: "events (clone_one env tok r s) =
           events s @ Print (MsgAlreadyExists (name r)) # Call (get_url_cmd dst) None # X"
      and calls: "\<forall>c cwd. Call c cwd \<in> set X \<longrightarrow> (\<exists>new. c = set_url_cmd dst new)"
      using clone_one_exists_events [of env s r tok] assms(1) by blast
    have "\<forall>u d cwd. Call (clone_cmd u d) cwd \<notin> set (new_events s (clone_one env tok r s))"
      using X calls by auto
    moreover have "take 2 (new_events s (clone_one env tok r s)) =
                [Print (MsgAlreadyExists (name r)), Call (get_url_cmd dst) None]"
      using X by simp
    ultimately show "clone_one env tok r s =
              fix_remote_with_token env tok dst (console_print (MsgAlreadyExists (name r)) s)
            \<and> take 2 (new_events s (clone_one env tok r s)) =
                [Print (MsgAlreadyExists (name r)), Call (get_url_cmd dst) None]
            \<and> (\<forall>u d cwd. Call (clone_cmd u d) cwd \<notin> set (new_events s (clone_one env tok r s)))"
      using clone_one_exists [of env s r tok] ex assms(1) by simp
  qed
  have b: "\<not> path_exists env (world s) dst \<Longrightarrow> fst ?run = Raise e \<Longrightarrow>
             new_events s (clone_one env tok r s) =
                       [Print (MsgCloning (full_name r)), Call (clone_cmd url dst) None,
                        Print (MsgFailedClone (name r) e)]"
    using clone_one_absent_failed(2) [of env s r tok e "snd ?run"] assms
    by (cases ?run) simp
  have c: "\<not> path_exists env (world s) dst \<Longrightarrow> fst ?run = Ok () \<Longrightarrow>
             take 3 (new_events s (clone_one env tok r s)) =
                       [Print (MsgCloning (full_name r)), Call (clone_cmd url dst) None,
                        Call (get_url_cmd dst) None]"
    using clone_one_absent_cloned [of env s r tok "snd ?run"] assms
    by (cases ?run) auto
  have d: "\<not> path_exists env (world s) dst \<Longrightarrow>
             take 2 (new_events s (clone_one env tok r s)) =
              [Print (MsgCloning (full_name r)), Call (clone_cmd url dst) None]"
  proof (cases "fst ?run")
    case (Ok u)
    assume "\<not> path_exists env (world s) dst"
    from c [OF this] Ok have "take 2 (take 3 (new_events s (clone_one env tok r s))) =
        take 2 [Print (MsgCloning (full_name r)), Call (clone_cmd url dst) None, Call (get_url_cmd dst) None]"
      by simp
    then show ?thesis by simp
  next
    case (Raise e')
    assume "\<not> path_exists env (world s) dst"
    then show ?thesis
      using clone_one_absent_failed(2) [of env s r tok e' "snd ?run"] assms Raise
      by (cases ?run) simp
  qed
  from a b c d show ?thesis by blast
qed


theorem clone_skips_existing_directory_witness:
  "path_exists (stub_env [] clone_creates (Ok [])) (world (start [''/home/gost/7heBlackLand/a'']))
       ''/home/gost/7heBlackLand/a''
   \<and> new_events (start [''/home/gost/7heBlackLand/a''])
         (clone_one (stub_env [] clone_creates (Ok [])) ''TOK'' (demo_repo ''a'')
            (start [''/home/gost/7heBlackLand/a'']))
       = [Print (MsgAlreadyExists ''a''), Call (get_url_cmd ''/home/gost/7heBlackLand/a'') None]
   \<and> \<not> path_exists (stub_env [] clone_creates (Ok [])) (world (start [])) ''/home/gost/7heBlackLand/a''
   \<and> take 3 (new_events (start [])
         (clone_one (stub_env [] clone_creates (Ok [])) ''TOK'' (demo_repo ''a'') (start [])))
       = [Print (MsgCloning ''gost/a''),
          Call (clone_cmd ''https://TOK@github.com/gost/a.git'' ''/home/gost/7heBlackLand/a'') None,
          Call (get_url_cmd ''/home/gost/7heBlackLand/a'') None]
   \<and> new_events (start [])
         (clone_one (stub_env [(''clone'', Exited 128 [])] no_effect (Ok [])) ''TOK'' (demo_repo ''a'')
            (start []))
       = [Print (MsgCloning ''gost/a''),
          Call (clone_cmd ''https://TOK@github.com/gost/a.git'' ''/home/gost/7heBlackLand/a'') None,
          Print (MsgFailedClone ''a'' (CalledProcessError 128))]"
  using clone_skips_existing_directory [OF refl refl,
          where env = "stub_env [] clone_creates (Ok [])" and tok = "''TOK''" and r = "demo_repo ''a''"
            and s = "start [''/home/gost/7heBlackLand/a'']" and e = OSError]
        clone_skips_existing_directory [OF refl refl,
          where env = "stub_env [] clone_creates (Ok [])" and tok = "''TOK''" and r = "demo_repo ''a''"
            and s = "start []" and e = OSError]
        clone_skips_existing_directory [OF refl refl,
          where env = "stub_env [(''clone'', Exited 128 [])] no_effect (Ok [])" and tok = "''TOK''"
            and r = "demo_repo ''a''" and s = "start []" and e = "CalledProcessError 128"]
  by (simp add: run_defs)

subsection \<open>What is left after a failed clone or init\<close>

lemma os_makedirs_eq:
  "os_makedirs env p s = (r, s') \<Longrightarrow> events s' = events s @ [Makedirs p]"
  by (auto simp: os_makedirs_def split: prod.splits)

lemma clone_one_no_rmtree: "Rmtree p \<notin> set (new_events s (clone_one env tok r s))"
proof (cases "path_exists env (world s) (path_join WORKSPACE (name r))")
  case True
  then show ?thesis using clone_one_exists_events [OF True, of tok] by auto
next
  case False
  let ?run = "run env (clone_cmd (token_url tok (clone_url r)) (path_join WORKSPACE (name r))) None True
             (console_print (MsgCloning (full_name r)) s)"
  show ?thesis
  proof (cases "fst ?run")
    case (Ok u)
    then show ?thesis
      using clone_one_absent_cloned [OF False, of tok "snd ?run"] by (cases ?run) auto
  next
    case (Raise e)
    then show ?thesis
      using clone_one_absent_failed(2) [OF False, of tok e "snd ?run"] by (cases ?run) auto
  qed
qed

lemma fix_remote_no_rmtree:
  "\<exists>X. events (fix_remote_with_token env tok p t) = events t @ X \<and> (\<forall>q. Rmtree q \<notin> set X)"
  using fix_remote_events [of env tok p t] by auto

lemma per_repo_clone_try_no_rmtree:
  "\<exists>X. events (snd (per_repo_clone_try env tok repos sel path s)) = events s @ X \<and>
       (\<forall>q. Rmtree q \<notin> set X)"
proof (cases sel)
  case None
  then show ?thesis by (simp add: per_repo_clone_try_def)
next
  case (Some i)
  show ?thesis
  proof (cases "py_index repos (i - 1)")
    case (Raise e)
    then show ?thesis using Some by (simp add: per_repo_clone_try_def)
  next
    case (Ok repo)
    obtain r1 s1 where mk: "os_makedirs env (dirname path) s = (r1, s1)"
      by (cases "os_makedirs env (dirname path) s")
    note ev1 = os_makedirs_eq [OF mk]
    show ?thesis
    proof (cases r1)
      case (Raise e)
      then show ?thesis using Some Ok mk ev1 by (simp add: per_repo_clone_try_def)
    next
      case ok1: (Ok u)
      obtain r2 s2 where rn: "run env (clone_cmd (token_url tok (clone_url repo)) path) None False s1 = (r2, s2)"
        by (cases "run env (clone_cmd (token_url tok (clone_url repo)) path) None False s1")
      note ev2 = run_eq [OF rn]
      show ?thesis
      proof (cases r2)
        case (Raise e)
        then show ?thesis using Some Ok mk ok1 rn ev1 ev2 by (simp add: per_repo_clone_try_def)
      next
        case ok2: (Ok u2)
        obtain X where X: "events (fix_remote_with_token env tok path s2) = events s2 @ X"
          and no: "\<forall>q. Rmtree q \<notin> set X"
          using fix_remote_no_rmtree [of env tok path s2] by blast
        then show ?thesis using Some Ok mk ok1 rn ok2 ev1 ev2 by (simp add: per_repo_clone_try_def)
      qed
    qed
  qed
qed

lemma per_repo_clone_no_rmtree:
  "Rmtree p \<notin> set (new_events s (snd (per_repo_clone env tok repos sel path s)))"
proof -
  obtain X where "events (snd (per_repo_clone_try env tok repos sel path s)) = events s @ X"
    and "\<forall>q. Rmtree q \<notin> set X"
    using per_repo_clone_try_no_rmtree by blast
  then show ?thesis
    by (auto simp: per_repo_clone_def split: prod.splits res.splits)
qed

lemma upload_init_rmtree:
  "Rmtree q \<in> set (new_events s (snd (upload_init env q cleanup s)))
     \<longleftrightarrow> cleanup \<and> \<not> fst (upload_init env q cleanup s)"
  by (auto simp: upload_init_def Let_def shutil_rmtree_def dest!: run_eq
           split: prod.splits res.splits if_splits)


text \<open>
  Claim C7, as stated, fails: "for every clone whose external tool invocation itself
  fails, the destination directory is deleted". With a \<open>git clone\<close> that creates the
  destination and then exits with status 128, \<open>clone_to_workspace\<close> prints "Failed to
  clone" and removes nothing: the destination still exists afterwards.
\<close>

theorem failed_clone_deleted_counterexample:
  "clone_one (stub_env [(''clone'', Exited 128 [])] clone_creates (Ok [])) ''TOK'' (demo_repo ''a'')
       (start [])
     = \<lparr>world = [''/home/gost/7heBlackLand/a''],
        events = [Print (MsgCloning ''gost/a''),
                  Call (clone_cmd ''https://TOK@github.com/gost/a.git'' ''/home/gost/7heBlackLand/a'') None,
                  Print (MsgFailedClone ''a'' (CalledProcessError 128))]\<rparr>
   \<and> path_exists (stub_env [(''clone'', Exited 128 [])] clone_creates (Ok []))
        (world (clone_one (stub_env [(''clone'', Exited 128 [])] clone_creates (Ok [])) ''TOK''
                  (demo_repo ''a'') (start [])))
        ''/home/gost/7heBlackLand/a''"
  by (simp add: run_defs)

text \<open>
  Claim C7, amended. The clone paths never delete the destination: neither
  \<open>clone_to_workspace\<close> nor the clone of \<open>per_repo_manager\<close> removes any directory,
  after a failed clone or after a successful one; a failed clone is reported and the
  world is left as the clone command left it. The initialisation block of an upload
  removes the folder exactly when the initialisation failed and the folder is the
  temporary directory the tool made for a single file.
\<close>

theorem clone_never_deletes_destination:
  "Rmtree p \<notin> set (new_events s (clone_one env tok r s))
   \<and> Rmtree p \<notin> set (new_events s (snd (per_repo_clone env tok repos sel path s)))
   \<and> (\<not> path_exists env (world s) (path_join WORKSPACE (name r)) \<and>
      run env (clone_cmd (token_url tok (clone_url r)) (path_join WORKSPACE (name r))) None True
        (console_print (MsgCloning (full_name r)) s) = (Raise e, s2)
        \<longrightarrow> clone_one env tok r s = console_print (MsgFailedClone (name r) e) s2
            \<and> world (clone_one env tok r s) = world s2)
   \<and> (Rmtree q \<in> set (new_events t (snd (upload_init env q cleanup t)))
        \<longleftrightarrow> cleanup \<and> \<not> fst (upload_init env q cleanup t))"
  using clone_one_no_rmtree [of p s env tok r]
        per_repo_clone_no_rmtree [of p s env tok repos sel path]
        clone_one_absent_failed(1) [of env s r tok e s2]
        upload_init_rmtree [of q t env cleanup]
  by auto

theorem clone_never_deletes_destination_witness:
  "\<not> path_exists (stub_env [(''clone'', Exited 128 [])] clone_creates (Ok [])) (world (start []))
        (path_join WORKSPACE (name (demo_repo ''a'')))
   \<and> run (stub_env [(''clone'', Exited 128 [])] clone_creates (Ok []))
        (clone_cmd (token_url ''TOK'' (clone_url (demo_repo ''a'')))
           (path_join WORKSPACE (name (demo_repo ''a'')))) None True
        (console_print (MsgCloning (full_name (demo_repo ''a''))) (start []))
      = (Raise (CalledProcessError 128),
         \<lparr>world = [''/home/gost/7heBlackLand/a''],
            events = [Print (MsgCloning ''gost/a''),
              Call (clone_cmd ''https://TOK@github.com/gost/a.git'' ''/home/gost/7heBlackLand/a'') None]\<rparr>)
   \<and> world (clone_one (stub_env [(''clone'', Exited 128 [])] clone_creates (Ok [])) ''TOK''
               (demo_repo ''a'') (start [])) = [''/home/gost/7heBlackLand/a'']
   \<and> Rmtree ''/home/gost/7heBlackLand/a'' \<notin>
        set (new_events (start [])
               (clone_one (stub_env [(''clone'', Exited 128 [])] clone_creates (Ok [])) ''TOK''
                  (demo_repo ''a'') (start [])))
   \<and> Rmtree ''/tmp/u'' \<in>
        set (new_events (start [''/tmp/u''])
               (snd (upload_init (stub_env [(''init'', Exited 1 [])] no_effect (Ok [])) ''/tmp/u'' True
                       (start [''/tmp/u'']))))
   \<and> Rmtree ''/home/u'' \<notin>
        set (new_events (start [''/home/u''])
               (snd (upload_init (stub_env [(''init'', Exited 1 [])] no_effect (Ok [])) ''/home/u'' False
                       (start [''/home/u'']))))"
  using clone_never_deletes_destination
          [where env = "stub_env [(''clone'', Exited 128 [])] clone_creates (Ok [])" and tok = "''TOK''"
             and r = "demo_repo ''a''" and s = "start []" and e = "CalledProcessError 128"
             and p = "''/home/gost/7heBlackLand/a''"
             and ?s2.0 = "\<lparr>world = [''/home/gost/7heBlackLand/a''],
                events = [Print (MsgCloning ''gost/a''),
                  Call (clone_cmd ''https://TOK@github.com/gost/a.git'' ''/home/gost/7heBlackLand/a'') None]\<rparr>"
             and repos = "[]" and sel = None and path = "[]"
             and q = "''/tmp/u''" and cleanup = True and t = "start [''/tmp/u'']"]
  by (simp add: run_defs upload_init_def shutil_rmtree_def DEFAULT_GIT_NAME_def DEFAULT_GIT_EMAIL_def)

subsection \<open>The origin URL after reconciliation\<close>

lemma fix_remote_not_plain:
  assumes "proc env (get_url_cmd p) None (world s) = (Exited 0 out, w1)"
      and "\<not> plain_https (strip out)"
  shows "fix_remote_with_token env tok p s = \<lparr>world = w1, events = events s @ [Call (get_url_cmd p) None]\<rparr>"
  using assms by (simp add: fix_remote_with_token_def check_output_def proc_subprocess)

lemma fix_remote_plain:
  assumes "proc env (get_url_cmd p) None (world s) = (Exited 0 out, w1)"
      and "plain_https (strip out)"
  shows "take 2 (new_events s (fix_remote_with_token env tok p s)) =
           [Call (get_url_cmd p) None, Call (set_url_cmd p (with_token tok (strip out))) None]"
proof -
  let ?s1 = "\<lparr>world = w1, events = events s @ [Call (get_url_cmd p) None]\<rparr>"
  obtain r2 s2 where sr: "safe_run env (set_url_cmd p (with_token tok (strip out))) None True ?s1 = (r2, s2)"
    by (cases "safe_run env (set_url_cmd p (with_token tok (strip out))) None True ?s1")
  have "events s2 = events s @ [Call (get_url_cmd p) None, Call (set_url_cmd p (with_token tok (strip out))) None]"
    using safe_run_eq [OF sr] by simp
  then show ?thesis
    using assms sr
    by (cases r2) (simp_all add: fix_remote_with_token_def check_output_def proc_subprocess)
qed

lemma strip_keeps_prefix:
  assumes "P \<noteq> []" and "\<not> py_isspace (hd P)" and "\<not> py_isspace (last P)"
  shows "prefix P (strip (P @ R))"
proof -
  obtain h P' where P: "P = h # P'" using assms(1) by (cases P) auto
  have head_eq: "dropWhile py_isspace (P @ R) = P @ R"
    using assms(2) P by simp
  have tail_eq: "dropWhile py_isspace (rev P) = rev P"
    using assms(1,3) by (cases "rev P") (auto simp: last_rev [symmetric] hd_rev)
  show ?thesis
    unfolding strip_def head_eq
    by (cases "\<forall>x\<in>set (rev R). py_isspace x") (auto simp: dropWhile_append tail_eq)
qed

lemma strip_with_token_prefix:
  assumes "prefix ''https://'' u"
  shows "prefix (''https://'' @ tok @ ''@'') (strip (with_token tok u))"
proof -
  have "with_token tok u = (''https://'' @ tok @ ''@'') @
          py_replace ''https://'' (''https://'' @ tok @ ''@'') (drop 8 u)"
    using with_token_drop [OF assms, of tok] by simp
  moreover have "prefix (''https://'' @ tok @ ''@'')
      (strip ((''https://'' @ tok @ ''@'') @ py_replace ''https://'' (''https://'' @ tok @ ''@'') (drop 8 u)))"
    by (rule strip_keeps_prefix) (simp_all add: py_isspace_def)
  ultimately show ?thesis by simp
qed

lemma strip_with_token_not_plain:
  "prefix ''https://'' u \<Longrightarrow> \<not> plain_https (strip (with_token tok u))"
  using strip_with_token_prefix [of u tok]
  by (auto simp: plain_https_def prefix_def)


lemma origin_of_SomeD:
  "origin_of env p w = Some u \<Longrightarrow>
     \<exists>out. proc env (get_url_cmd p) None w = (Exited 0 out, snd (proc env (get_url_cmd p) None w)) \<and>
           strip out = u"
  by (cases "proc env (get_url_cmd p) None w")
     (auto simp: origin_of_def split: proc_result.splits if_splits)

lemma fix_remote_origin_rewritten:
  assumes keeps: "git_keeps_origin env p"
      and orig: "origin_of env p (world s) = Some u"
      and pl: "plain_https u"
      and ok: "fst (proc env (set_url_cmd p (with_token tok u)) None
                  (snd (proc env (get_url_cmd p) None (world s)))) = Exited 0 out'"
  shows "origin_of env p (world (fix_remote_with_token env tok p s)) = Some (strip (with_token tok u))"
proof -
  let ?w1 = "snd (proc env (get_url_cmd p) None (world s))"
  let ?w2 = "snd (proc env (set_url_cmd p (with_token tok u)) None ?w1)"
  obtain out where g: "proc env (get_url_cmd p) None (world s) = (Exited 0 out, ?w1)" and u: "strip out = u"
    using origin_of_SomeD [OF orig] by blast
  have st: "proc env (set_url_cmd p (with_token tok u)) None ?w1 = (Exited 0 out', ?w2)"
    using ok by (cases "proc env (set_url_cmd p (with_token tok u)) None ?w1") simp
  have "world (fix_remote_with_token env tok p s) = ?w2"
    using g u pl st
    by (simp add: fix_remote_with_token_def check_output_def safe_run_def run_def proc_subprocess)
  moreover have "origin_of env p ?w2 = Some (strip (with_token tok u))"
    using keeps ok unfolding git_keeps_origin_def by blast
  ultimately show ?thesis by simp
qed

lemma fix_remote_origin_kept:
  assumes keeps: "git_keeps_origin env p"
      and orig: "origin_of env p (world s) = Some u"
      and npl: "\<not> plain_https u"
  shows "origin_of env p (world (fix_remote_with_token env tok p s)) = Some u"
proof -
  let ?w1 = "snd (proc env (get_url_cmd p) None (world s))"
  obtain out where g: "proc env (get_url_cmd p) None (world s) = (Exited 0 out, ?w1)" and u: "strip out = u"
    using origin_of_SomeD [OF orig] by blast
  have "world (fix_remote_with_token env tok p s) = ?w1"
    using fix_remote_not_plain [OF g, of tok] npl u by simp
  moreover have "origin_of env p ?w1 = origin_of env p (world s)"
    using keeps unfolding git_keeps_origin_def by blast
  ultimately show ?thesis using orig by simp
qed

lemma subprocess_run_world:
  "subprocess_run env c s = (r, s') \<Longrightarrow> world s' = snd (proc env c None (world s))"
  by (auto simp: subprocess_run_def subprocess_def split: prod.splits proc_result.splits)

lemma commit_if_dirty_origin:
  assumes "git_keeps_origin env p"
  shows "origin_of env p (world (snd (commit_if_dirty env p m s))) = origin_of env p (world s)"
proof -
  have add: "\<And>w. origin_of env p (snd (proc env (add_cmd p) None w)) = origin_of env p w"
    and com: "\<And>w. origin_of env p (snd (proc env (commit_cmd p m) None w)) = origin_of env p w"
    using assms unfolding git_keeps_origin_def by blast+
  show ?thesis
    by (auto simp: commit_if_dirty_def add com dest!: run_world subprocess_run_world
             split: prod.splits res.splits)
qed

lemma batch_push_origin:
  assumes "git_keeps_origin env p"
  shows "origin_of env p (world (snd (batch_push env n p m s))) = origin_of env p (world s)"
proof -
  have push: "\<And>w. origin_of env p (snd (proc env (push_cmd p) None w)) = origin_of env p w"
    using assms unfolding git_keeps_origin_def by blast
  obtain r s1 where c: "commit_if_dirty env p m s = (r, s1)" by (cases "commit_if_dirty env p m s")
  have s1: "origin_of env p (world s1) = origin_of env p (world s)"
    using commit_if_dirty_origin [OF assms, of m s] c by simp
  show ?thesis
    using c s1
    by (auto simp: batch_push_def push dest!: run_world split: prod.splits res.splits)
qed

lemma batch_try_origin:
  assumes "git_keeps_origin env p"
  shows "origin_of env p (world (snd (batch_try env ch m n p s))) = origin_of env p (world s)"
proof -
  have pull: "\<And>w. origin_of env p (snd (proc env (pull_cmd p) None w)) = origin_of env p w"
    using assms unfolding git_keeps_origin_def by blast
  obtain r s1 where c: "(if ch = ''1'' \<or> ch = ''3'' then batch_pull env n p s else (Ok (), s)) = (r, s1)"
    by (cases "if ch = ''1'' \<or> ch = ''3'' then batch_pull env n p s else (Ok (), s)")
  have s1: "origin_of env p (world s1) = origin_of env p (world s)"
    using c by (auto simp: batch_pull_def pull dest!: run_world split: prod.splits res.splits if_splits)
  show ?thesis
    using c s1 batch_push_origin [OF assms, of n m s1]
    by (cases r) (auto simp: batch_try_def)
qed

lemma batch_repo_world:
  "origin_of env p (world (batch_repo env tok ch m n s)) =
     origin_of env p (world (snd (batch_try env ch m n (path_join WORKSPACE n)
        (fix_remote_with_token env tok (path_join WORKSPACE n) (console_print (MsgRepo n) s)))))"
  by (auto simp: batch_repo_def Let_def split: prod.splits res.splits)


lemma clone_one_fresh_origin:
  assumes keeps: "git_keeps_origin env (path_join WORKSPACE (name r))"
      and absent: "\<not> path_exists env (world s) (path_join WORKSPACE (name r))"
      and pl: "plain_https (clone_url r)"
      and ok: "fst (proc env (clone_cmd (token_url tok (clone_url r)) (path_join WORKSPACE (name r))) None
                  (world s)) = Exited 0 out''"
  shows "origin_of env (path_join WORKSPACE (name r)) (world (clone_one env tok r s)) =
           Some (strip (with_token tok (clone_url r)))"
proof -
  let ?p = "path_join WORKSPACE (name r)"
  let ?url = "token_url tok (clone_url r)"
  let ?w2 = "snd (proc env (clone_cmd ?url ?p) None (world s))"
  let ?s2 = "\<lparr>world = ?w2, events = events (console_print (MsgCloning (full_name r)) s) @ [Call (clone_cmd ?url ?p) None]\<rparr>"
  have url: "?url = with_token tok (clone_url r)"
    using pl by (simp add: token_url_def)
  have pr: "proc env (clone_cmd ?url ?p) None (world (console_print (MsgCloning (full_name r)) s)) = (Exited 0 out'', ?w2)"
    using ok by (cases "proc env (clone_cmd ?url ?p) None (world s)") simp
  have rn: "run env (clone_cmd ?url ?p) None True (console_print (MsgCloning (full_name r)) s) = (Ok (), ?s2)"
    using proc_subprocess [OF pr] by (simp add: run_def)
  have o2: "origin_of env ?p (world ?s2) = Some (strip (with_token tok (clone_url r)))"
    using keeps ok url unfolding git_keeps_origin_def by auto
  have npl: "\<not> plain_https (strip (with_token tok (clone_url r)))"
    using strip_with_token_not_plain [of "clone_url r" tok] pl by (simp add: plain_https_def)
  have "origin_of env ?p (world (fix_remote_with_token env tok ?p ?s2)) =
          Some (strip (with_token tok (clone_url r)))"
    by (rule fix_remote_origin_kept [OF keeps o2 npl])
  then show ?thesis
    using absent rn by (simp add: clone_one_def Let_def)
qed

lemma git_env_keeps_origin: "git_keeps_origin (git_env dirs) p"
  by (simp add: git_keeps_origin_def origin_of_def git_env_def get_url_cmd_def set_url_cmd_def
        clone_cmd_def pull_cmd_def add_cmd_def commit_cmd_def push_cmd_def)

text \<open>
  Claim C9, as stated, fails: "after any reconciliation operation its origin remote URL
  contains the embedded credential". For a repository whose origin is the SSH URL
  \<open>git@github.com:gost/a.git\<close>, a batch Pull turn starts no \<open>set-url\<close>, and the origin
  afterwards is the same URL, in which the token does not occur. For a repository
  whose origin is plain HTTPS and whose \<open>set-url\<close> exits with status 1, the origin read
  after the turn is the plain URL still.
\<close>

theorem origin_has_credential_counterexample:
  "batch_repo (git_env [''/home/gost/7heBlackLand/a'']) ''TOK'' ''1'' ''m'' ''a''
       \<lparr>world = ''git@github.com:gost/a.git'', events = []\<rparr>
     = \<lparr>world = ''git@github.com:gost/a.git'',
        events = [Print (MsgRepo ''a''), Call (get_url_cmd ''/home/gost/7heBlackLand/a'') None,
                  Call (pull_cmd ''/home/gost/7heBlackLand/a'') None, Log (LogPulled ''a'')]\<rparr>
   \<and> origin_of (git_env [''/home/gost/7heBlackLand/a'']) ''/home/gost/7heBlackLand/a''
        (world (batch_repo (git_env [''/home/gost/7heBlackLand/a'']) ''TOK'' ''1'' ''m'' ''a''
                  \<lparr>world = ''git@github.com:gost/a.git'', events = []\<rparr>))
     = Some ''git@github.com:gost/a.git''
   \<and> \<not> sublist ''TOK'' ''git@github.com:gost/a.git''
   \<and> origin_of (stub_env [(''get-url'', Exited 0 ''https://github.com/gost/a.git''),
                           (''set-url'', Exited 1 [])] no_effect (Ok []))
        ''/home/gost/7heBlackLand/a''
        (world (batch_repo (stub_env [(''get-url'', Exited 0 ''https://github.com/gost/a.git''),
                                      (''set-url'', Exited 1 [])] no_effect (Ok []))
                  ''TOK'' ''1'' ''m'' ''a'' (start [])))
     = Some ''https://github.com/gost/a.git''"
  by (simp add: run_defs git_env_def origin_of_def sublist_Cons_right)

text \<open>
  Claim C9, amended. Take a git that keeps the origin of a repository as \<open>set-url\<close> and
  \<open>clone\<close> leave it. After a batch turn (Pull, Push or Sync) on the repository, or a
  Clone turn that finds its directory: if the origin read at the start was plain HTTPS
  (it starts with \<open>https://\<close> and has no \<open>@\<close>) and the \<open>set-url\<close> of the credential fix-up
  exited with status 0, the origin is the rewritten URL, which begins with \<open>https://\<close>,
  the token and \<open>@\<close>; if the origin read at the start was of any other form (SSH, or a
  URL that has an \<open>@\<close> already, such as one that carries the credential), it is still
  that URL. After a Clone turn that clones the repository afresh from a plain HTTPS
  \<open>clone_url\<close>, with a clone that exits with status 0, the origin is the clone URL with
  the credential, which begins with \<open>https://\<close>, the token and \<open>@\<close>.
\<close>

theorem origin_has_credential_after_rewrite:
  assumes "git_keeps_origin env path"
      and "path = path_join WORKSPACE n"
      and "name r = n"
  shows "(origin_of env path (world s) = Some u \<and> plain_https u \<and>
          fst (proc env (set_url_cmd path (with_token tok u)) None
                 (snd (proc env (get_url_cmd path) None (world s)))) = Exited 0 out'
          \<longrightarrow> origin_of env path (world (batch_repo env tok ch m n s)) = Some (strip (with_token tok u))
              \<and> (path_exists env (world s) path \<longrightarrow>
                   origin_of env path (world (clone_one env tok r s)) = Some (strip (with_token tok u)))
              \<and> prefix (''https://'' @ tok @ ''@'') (strip (with_token tok u)))
       \<and> (origin_of env path (world s) = Some u \<and> \<not> plain_https u
          \<longrightarrow> origin_of env path (world (batch_repo env tok ch m n s)) = Some u
              \<and> (path_exists env (world s) path \<longrightarrow>
                   origin_of env path (world (clone_one env tok r s)) = Some u))
       \<and> (\<not> path_exists env (world s) path \<and> plain_https (clone_url r) \<and>
          fst (proc env (clone_cmd (token_url tok (clone_url r)) path) None (world s)) = Exited 0 out''
          \<longrightarrow> origin_of env path (world (clone_one env tok r s)) =
                Some (strip (with_token tok (clone_url r)))
              \<and> prefix (''https://'' @ tok @ ''@'') (strip (with_token tok (clone_url r))))"
proof -
  note keeps = assms(1)
  have batch: "origin_of env path (world (batch_repo env tok ch m n s)) =
      origin_of env path (world (fix_remote_with_token env tok path (console_print (MsgRepo n) s)))"
    using batch_repo_world [of env path tok ch m n s] batch_try_origin [OF keeps] assms(2) by simp
  have a: "origin_of env path (world (batch_repo env tok ch m n s)) = Some (strip (with_token tok u))
              \<and> (path_exists env (world s) path \<longrightarrow>
                   origin_of env path (world (clone_one env tok r s)) = Some (strip (with_token tok u)))
              \<and> prefix (''https://'' @ tok @ ''@'') (strip (with_token tok u))"
    if orig: "origin_of env path (world s) = Some u" and pl: "plain_https u"
      and ok: "fst (proc env (set_url_cmd path (with_token tok u)) None
                 (snd (proc env (get_url_cmd path) None (world s)))) = Exited 0 out'"
  proof -
    have fx: "\<And>msg. origin_of env path (world (fix_remote_with_token env tok path (console_print msg s))) =
        Some (strip (with_token tok u))"
      using fix_remote_origin_rewritten [OF keeps _ pl, of "console_print _ s" tok out'] orig ok by simp
    have "prefix (''https://'' @ tok @ ''@'') (strip (with_token tok u))"
      using strip_with_token_prefix [of u tok] pl by (simp add: plain_https_def)
    then show ?thesis
      using fx batch clone_one_exists [of env s r tok] assms(2,3) by simp
  qed
  have b: "origin_of env path (world (batch_repo env tok ch m n s)) = Some u
              \<and> (path_exists env (world s) path \<longrightarrow>
                   origin_of env path (world (clone_one env tok r s)) = Some u)"
    if orig: "origin_of env path (world s) = Some u" and npl: "\<not> plain_https u"
  proof -
    have fx: "\<And>msg. origin_of env path (world (fix_remote_with_token env tok path (console_print msg s))) =
        Some u"
      using fix_remote_origin_kept [OF keeps _ npl, of "console_print _ s" tok] orig by simp
    show ?thesis
      using fx batch clone_one_exists [of env s r tok] assms(2,3) by simp
  qed
  have c: "origin_of env path (world (clone_one env tok r s)) =
                Some (strip (with_token tok (clone_url r)))
              \<and> prefix (''https://'' @ tok @ ''@'') (strip (with_token tok (clone_url r)))"
    if "\<not> path_exists env (world s) path" and pl: "plain_https (clone_url r)"
      and "fst (proc env (clone_cmd (token_url tok (clone_url r)) path) None (world s)) = Exited 0 out''"
    using clone_one_fresh_origin [of env r s tok out''] that assms
          strip_with_token_prefix [of "clone_url r" tok]
    by (simp add: plain_https_def)
  from a b c show ?thesis by blast
qed


theorem origin_has_credential_after_rewrite_witness:
  "git_keeps_origin (git_env [''/home/gost/7heBlackLand/a'']) (path_join WORKSPACE ''a'')
   \<and> origin_of (git_env [''/home/gost/7heBlackLand/a'']) (path_join WORKSPACE ''a'')
        (world \<lparr>world = ''https://github.com/gost/a.git'' @ [CHR 0xA0, CHR 0x0A], events = []\<rparr>)
       = Some ''https://github.com/gost/a.git''
   \<and> plain_https ''https://github.com/gost/a.git''
   \<and> origin_of (git_env [''/home/gost/7heBlackLand/a'']) (path_join WORKSPACE ''a'')
        (world (batch_repo (git_env [''/home/gost/7heBlackLand/a'']) ''TOK'' ''3'' ''m'' ''a''
                  \<lparr>world = ''https://github.com/gost/a.git'' @ [CHR 0xA0, CHR 0x0A], events = []\<rparr>))
       = Some ''https://TOK@github.com/gost/a.git''
   \<and> origin_of (git_env [''/home/gost/7heBlackLand/a'']) (path_join WORKSPACE ''a'')
        (world \<lparr>world = ''git@github.com:gost/a.git'', events = []\<rparr>)
       = Some ''git@github.com:gost/a.git''
   \<and> \<not> plain_https ''git@github.com:gost/a.git''
   \<and> origin_of (git_env [''/home/gost/7heBlackLand/a'']) (path_join WORKSPACE ''a'')
        (world (batch_repo (git_env [''/home/gost/7heBlackLand/a'']) ''TOK'' ''3'' ''m'' ''a''
                  \<lparr>world = ''git@github.com:gost/a.git'', events = []\<rparr>))
       = Some ''git@github.com:gost/a.git''
   \<and> git_keeps_origin (git_env []) (path_join WORKSPACE ''a'')
   \<and> \<not> path_exists (git_env []) (world \<lparr>world = [], events = []\<rparr>) (path_join WORKSPACE ''a'')
   \<and> plain_https (clone_url (demo_repo ''a''))
   \<and> origin_of (git_env []) (path_join WORKSPACE ''a'')
        (world (clone_one (git_env []) ''TOK'' (demo_repo ''a'') \<lparr>world = [], events = []\<rparr>))
       = Some ''https://TOK@github.com/gost/a.git''"
proof -
  have n: "name (demo_repo ''a'') = ''a''"
    by (simp add: demo_repo_def)
  show ?thesis
    using git_env_keeps_origin [of "[''/home/gost/7heBlackLand/a'']" "path_join WORKSPACE ''a''"]
      git_env_keeps_origin [of "[]" "path_join WORKSPACE ''a''"]
      origin_has_credential_after_rewrite
        [OF git_env_keeps_origin [of "[''/home/gost/7heBlackLand/a'']" "path_join WORKSPACE ''a''"] refl n,
         where tok = "''TOK''" and ch = "''3''" and m = "''m''"
           and s = "\<lparr>world = ''https://github.com/gost/a.git'' @ [CHR 0xA0, CHR 0x0A], events = []\<rparr>"
           and u = "''https://github.com/gost/a.git''" and out' = "[]" and out'' = "[]"]
      origin_has_credential_after_rewrite
        [OF git_env_keeps_origin [of "[''/home/gost/7heBlackLand/a'']" "path_join WORKSPACE ''a''"] refl n,
         where tok = "''TOK''" and ch = "''3''" and m = "''m''"
           and s = "\<lparr>world = ''git@github.com:gost/a.git'', events = []\<rparr>"
           and u = "''git@github.com:gost/a.git''" and out' = "[]" and out'' = "[]"]
      origin_has_credential_after_rewrite
        [OF git_env_keeps_origin [of "[]" "path_join WORKSPACE ''a''"] refl n,
         where tok = "''TOK''" and ch = "''3''" and m = "''m''"
           and s = "\<lparr>world = [], events = []\<rparr>"
           and u = "[]" and out' = "[]" and out'' = "[]"]
    by (simp add: run_defs git_env_def origin_of_def)
qed

subsection \<open>The loops visit every repository\<close>

lemma repo_headers_append [simp]: "repo_headers (xs @ ys) = repo_headers xs @ repo_headers ys"
  by (induction xs rule: repo_headers.induct) simp_all

lemma clone_outcomes_append [simp]: "clone_outcomes (xs @ ys) = clone_outcomes xs @ clone_outcomes ys"
  by (induction xs rule: clone_outcomes.induct) simp_all













subsection \<open>The credential fix-up on one origin URL\<close>

lemma plain_https_spec: "plain_https u \<Longrightarrow> spec_unauthenticated_https u"
  by (auto simp: plain_https_def spec_unauthenticated_https_def dest!: set_takeWhileD in_set_dropD)

lemma token_url_not_plain: "\<not> plain_https (token_url tok u)"
  using plain_https_with_token [of u tok] by (simp add: token_url_def)

text \<open>
  Claim C4, as stated, fails: "if the URL is the plain unauthenticated HTTPS form (no
  \<open>user@\<close> segment) it is rewritten to embed the credential". The code tests for an \<open>@\<close>
  anywhere in the URL. \<open>https://gitlab.example.com/team/a@b.git\<close> has no user segment,
  yet the rewrite leaves it as it is, and \<open>fix_remote_with_token\<close> reads it and starts no
  \<open>set-url\<close>.
\<close>

theorem unauthenticated_https_rewritten_counterexample:
  "spec_unauthenticated_https ''https://gitlab.example.com/team/a@b.git''
   \<and> token_url ''TOK'' ''https://gitlab.example.com/team/a@b.git'' =
       ''https://gitlab.example.com/team/a@b.git''
   \<and> fix_remote_with_token
         (stub_env [(''get-url'', Exited 0 ''https://gitlab.example.com/team/a@b.git'')] no_effect (Ok []))
         ''TOK'' ''/w/a'' (start [''/w/a''])
       = \<lparr>world = [''/w/a''], events = [Call (get_url_cmd ''/w/a'') None]\<rparr>"
  by (simp add: spec_unauthenticated_https_def run_defs)

text \<open>
  Claim C4, amended. The credential fix-up is selective and idempotent on the code's own
  test. Let \<open>u\<close> be the origin URL as \<open>git remote get-url origin\<close> prints it, stripped.
  When \<open>u\<close> starts with \<open>https://\<close> and has no \<open>@\<close> anywhere, \<open>fix_remote_with_token\<close>
  starts \<open>git remote set-url origin\<close> with the rewritten URL: \<open>https://\<close>, the token, \<open>@\<close>
  and the rest of \<open>u\<close> (with the same replacement made in the rest, as \<open>str.replace\<close>
  does); every such \<open>u\<close> has no user segment. For any other \<open>u\<close> it starts no \<open>set-url\<close>
  and the URL is left as it is. Rewriting twice gives what rewriting once gives, and a
  run of \<open>fix_remote_with_token\<close> that reads the rewritten URL as the origin starts no
  \<open>set-url\<close>.
\<close>

theorem embed_credential_selective_idempotent:
  assumes "proc env (get_url_cmd p) None (world s) = (Exited 0 out, w1)"
      and "u = strip out"
  shows "(plain_https u \<longrightarrow>
            take 2 (new_events s (fix_remote_with_token env tok p s)) =
              [Call (get_url_cmd p) None, Call (set_url_cmd p (token_url tok u)) None]
            \<and> token_url tok u =
                ''https://'' @ tok @ ''@'' @ py_replace ''https://'' (''https://'' @ tok @ ''@'') (drop 8 u)
            \<and> spec_unauthenticated_https u)
       \<and> (\<not> plain_https u \<longrightarrow>
            fix_remote_with_token env tok p s =
              \<lparr>world = w1, events = events s @ [Call (get_url_cmd p) None]\<rparr>
            \<and> token_url tok u = u)
       \<and> token_url tok (token_url tok u) = token_url tok u
       \<and> (proc env (get_url_cmd p) None (world s') = (Exited 0 out', w1') \<and> strip out' = token_url tok u \<longrightarrow>
            fix_remote_with_token env tok p s' =
              \<lparr>world = w1', events = events s' @ [Call (get_url_cmd p) None]\<rparr>)"
proof -
  have a: "take 2 (new_events s (fix_remote_with_token env tok p s)) =
              [Call (get_url_cmd p) None, Call (set_url_cmd p (token_url tok u)) None]
            \<and> token_url tok u =
                ''https://'' @ tok @ ''@'' @ py_replace ''https://'' (''https://'' @ tok @ ''@'') (drop 8 u)
            \<and> spec_unauthenticated_https u"
    if pl: "plain_https u"
    using fix_remote_plain [OF assms(1), of tok] pl assms(2) with_token_drop [of u tok] plain_https_spec [OF pl]
    by (simp add: token_url_def plain_https_def)
  have b: "fix_remote_with_token env tok p s =
              \<lparr>world = w1, events = events s @ [Call (get_url_cmd p) None]\<rparr>
            \<and> token_url tok u = u"
    if npl: "\<not> plain_https u"
    using fix_remote_not_plain [OF assms(1), of tok] npl assms(2)
    by (simp add: token_url_def)
  have c: "token_url tok (token_url tok u) = token_url tok u"
    using token_url_not_plain [of tok u] by (simp add: token_url_def)
  have d: "fix_remote_with_token env tok p s' =
              \<lparr>world = w1', events = events s' @ [Call (get_url_cmd p) None]\<rparr>"
    if g: "proc env (get_url_cmd p) None (world s') = (Exited 0 out', w1')"
      and o: "strip out' = token_url tok u"
    using fix_remote_not_plain [OF g, of tok] token_url_not_plain [of tok u] o
    by simp
  from a b c d show ?thesis by blast
qed

theorem embed_credential_selective_idempotent_witness:
  "proc (git_env [''/w/a'']) (get_url_cmd ''/w/a'') None (world \<lparr>world = ''https://github.com/gost/a.git'', events = []\<rparr>)
     = (Exited 0 ''https://github.com/gost/a.git'', ''https://github.com/gost/a.git'')
   \<and> plain_https (strip ''https://github.com/gost/a.git'')
   \<and> fix_remote_with_token (git_env [''/w/a'']) ''TOK'' ''/w/a''
        \<lparr>world = ''https://github.com/gost/a.git'', events = []\<rparr>
     = \<lparr>world = ''https://TOK@github.com/gost/a.git'',
        events = [Call (get_url_cmd ''/w/a'') None,
                  Call (set_url_cmd ''/w/a'' ''https://TOK@github.com/gost/a.git'') None,
                  Log (LogUpdatedRemote ''/w/a'')]\<rparr>
   \<and> proc (git_env [''/w/a'']) (get_url_cmd ''/w/a'') None
        (world \<lparr>world = ''https://TOK@github.com/gost/a.git'', events = []\<rparr>)
     = (Exited 0 ''https://TOK@github.com/gost/a.git'', ''https://TOK@github.com/gost/a.git'')
   \<and> strip ''https://TOK@github.com/gost/a.git'' = token_url ''TOK'' (strip ''https://github.com/gost/a.git'')
   \<and> fix_remote_with_token (git_env [''/w/a'']) ''TOK'' ''/w/a''
        \<lparr>world = ''https://TOK@github.com/gost/a.git'', events = []\<rparr>
     = \<lparr>world = ''https://TOK@github.com/gost/a.git'', events = [Call (get_url_cmd ''/w/a'') None]\<rparr>
   \<and> \<not> plain_https (strip ''git@github.com:gost/a.git'')
   \<and> fix_remote_with_token (git_env [''/w/a'']) ''TOK'' ''/w/a''
        \<lparr>world = ''git@github.com:gost/a.git'', events = []\<rparr>
     = \<lparr>world = ''git@github.com:gost/a.git'', events = [Call (get_url_cmd ''/w/a'') None]\<rparr>"
proof -
  have h1: "proc (git_env [''/w/a'']) (get_url_cmd ''/w/a'') None
        (world \<lparr>world = ''https://github.com/gost/a.git'', events = []\<rparr>)
     = (Exited 0 ''https://github.com/gost/a.git'', ''https://github.com/gost/a.git'')"
    by (simp add: git_env_def get_url_cmd_def)
  have h2: "proc (git_env [''/w/a'']) (get_url_cmd ''/w/a'') None
        (world \<lparr>world = ''https://TOK@github.com/gost/a.git'', events = []\<rparr>)
     = (Exited 0 ''https://TOK@github.com/gost/a.git'', ''https://TOK@github.com/gost/a.git'')"
    by (simp add: git_env_def get_url_cmd_def)
  have h3: "proc (git_env [''/w/a'']) (get_url_cmd ''/w/a'') None
        (world \<lparr>world = ''git@github.com:gost/a.git'', events = []\<rparr>)
     = (Exited 0 ''git@github.com:gost/a.git'', ''git@github.com:gost/a.git'')"
    by (simp add: git_env_def get_url_cmd_def)
  show ?thesis
    using h1 h2 h3
      embed_credential_selective_idempotent [OF h1 refl, where tok = "''TOK''"
        and s' = "\<lparr>world = ''https://TOK@github.com/gost/a.git'', events = []\<rparr>"
        and out' = "''https://TOK@github.com/gost/a.git''" and w1' = "''https://TOK@github.com/gost/a.git''"]
      embed_credential_selective_idempotent [OF h3 refl, where tok = "''TOK''"
        and s' = "\<lparr>world = ''git@github.com:gost/a.git'', events = []\<rparr>"
        and out' = "''git@github.com:gost/a.git''" and w1' = "''git@github.com:gost/a.git''"]
    by (simp add: run_defs git_env_def)
qed

end
